theory Spec2Isabelle
  imports Complex_Main "HOL-Library.Multiset"
begin

section \<open>The training script \<open>script/mnist.py\<close> of the notebook\<close>

text \<open>
  The notebook \<open>2_pytorch_training_job.ipynb\<close> writes one Python script, \<open>mnist.py\<close>,
  and submits it as a training job. The script is embedded here function by function:
  \<open>Net\<close>, \<open>log_performance\<close>, \<open>train_model\<close>, \<open>save_model\<close> and the \<open>__main__\<close> block.

  The script is glue over PyTorch. What PyTorch computes (convolution, autograd, the
  optimizers' update rules, the random generator) is not code of the notebook: it is
  taken as a parameter, the record \<open>torch\<close> below, and every theorem holds for every
  value of that record unless it states a hypothesis on it. Python floats are read as
  real numbers; rounding is not modelled.
\<close>

subsection \<open>Exceptions, the world, and programs\<close>

datatype error =
    KeyError string
  | ValueError
  | ZeroDivisionError
  | RuntimeError
  | IndexError
  | NotANumber
  | SystemExit int
  | OSError

text \<open>What the script writes to standard output: \<open>print\<close> and the logger's stream handler.
  A formatted float is kept as the number that is formatted.\<close>

datatype event =
    Processes nat nat real string
  | Training_Epoch int
  | Train_Epoch int nat nat real real
  | Performance string real real
  | Saving_the_model

text \<open>The world a run acts on: the state of PyTorch's global random generator, the
  output written so far, the files written by \<open>torch.save\<close> (a state dict: name,
  shape and tensor of each entry, in order), and which paths can be opened for writing.\<close>

record ('g, 't) world =
  rng :: 'g
  out :: "event list"
  files :: "string \<rightharpoonup> (string \<times> int list \<times> 't) list"
  writable :: "string \<Rightarrow> bool"

text \<open>A program takes the world and returns a value or the exception it raised, with the
  world as it is then: what happened before an exception stays.\<close>

type_synonym ('a, 'w) prog = "'w \<Rightarrow> (error + 'a) \<times> 'w"

definition ret :: "'a \<Rightarrow> ('a, 'w) prog" where
  "ret x = (\<lambda>w. (Inr x, w))"

definition raise :: "error \<Rightarrow> ('a, 'w) prog" where
  "raise e = (\<lambda>w. (Inl e, w))"

definition seq :: "('a, 'w) prog \<Rightarrow> ('a \<Rightarrow> ('b, 'w) prog) \<Rightarrow> ('b, 'w) prog" where
  "seq m f = (\<lambda>w. case m w of (Inl e, w') \<Rightarrow> (Inl e, w') | (Inr x, w') \<Rightarrow> f x w')"

definition lift :: "error + 'a \<Rightarrow> ('a, 'w) prog" where
  "lift r = (case r of Inl e \<Rightarrow> raise e | Inr x \<Rightarrow> ret x)"

text \<open>\<open>for x in xs: acc = body(x, acc)\<close>: the loop stops at the first exception.\<close>

fun for_each :: "('a \<Rightarrow> 'b \<Rightarrow> ('b, 'w) prog) \<Rightarrow> 'a list \<Rightarrow> 'b \<Rightarrow> ('b, 'w) prog" where
  "for_each body [] acc = ret acc"
| "for_each body (x # xs) acc = seq (body x acc) (for_each body xs)"

definition info :: "event \<Rightarrow> (unit, ('g, 't) world) prog" where
  "info e = (\<lambda>w. (Inr (), w\<lparr>out := out w @ [e]\<rparr>))"

subsection \<open>PyTorch, as a parameter\<close>

text \<open>
  \<open>'t\<close> is the type of tensors, \<open>'g\<close> of generator states, \<open>'o\<close> of an optimizer's
  internal state. A parameter store maps the local name of a parameter
  (\<open>conv1.weight\<close>) to its tensor. The fields:
  \<^item> \<open>seed_state n\<close>: the generator state after \<open>torch.manual_seed(n)\<close>;
  \<open>init_parameters\<close>: the initial tensors the layer constructors draw for the named
  shapes; \<open>randperm n\<close>: the order a shuffling loader draws for \<open>n\<close> examples;
  \<^item> \<open>collate\<close>: stacking examples into a batch; the functional layers \<open>conv2d\<close>,
  \<open>max_pool2d\<close>, \<open>relu\<close>, \<open>dropout2d\<close>, \<open>dropout\<close> (both as applied in training
  mode), \<open>view\<close>, \<open>linear\<close>, \<open>log_softmax\<close>; \<open>rows\<close>: the rows of a 2-D tensor;
  \<^item> \<open>autograd f \<theta>\<close>: the gradients \<open>backward\<close> leaves, for the loss \<open>f\<close> as a function of
  the parameters; \<open>sgd_step lr momentum\<close> and \<open>adam_step lr\<close>: one \<open>optimizer.step()\<close>
  from an optimizer state (\<open>None\<close> before the first step);
  \<^item> \<open>MNIST root train\<close>: the torchvision dataset read from a directory, normalised;
  \<open>int_of_str\<close>: Python's \<open>int\<close> on a string.
\<close>

record ('t, 'g, 'o) torch =
  seed_state :: "int \<Rightarrow> 'g"
  init_parameters :: "(string \<times> int list) list \<Rightarrow> 'g \<Rightarrow> (string \<Rightarrow> 't) \<times> 'g"
  randperm :: "nat \<Rightarrow> 'g \<Rightarrow> nat list \<times> 'g"
  collate :: "'t list \<Rightarrow> 't"
  conv2d :: "'t \<Rightarrow> 't \<Rightarrow> 't \<Rightarrow> 't"
  max_pool2d :: "'t \<Rightarrow> int \<Rightarrow> 't"
  relu :: "'t \<Rightarrow> 't"
  dropout2d :: "'t \<Rightarrow> real \<Rightarrow> 'g \<Rightarrow> 't \<times> 'g"
  dropout :: "'t \<Rightarrow> real \<Rightarrow> 'g \<Rightarrow> 't \<times> 'g"
  view :: "'t \<Rightarrow> int list \<Rightarrow> 't"
  linear :: "'t \<Rightarrow> 't \<Rightarrow> 't \<Rightarrow> 't"
  log_softmax :: "'t \<Rightarrow> int \<Rightarrow> 't"
  rows :: "'t \<Rightarrow> real list list"
  autograd :: "((string \<Rightarrow> 't) \<Rightarrow> real) \<Rightarrow> (string \<Rightarrow> 't) \<Rightarrow> (string \<Rightarrow> 't)"
  sgd_step :: "real \<Rightarrow> real \<Rightarrow> 'o option \<Rightarrow> (string \<Rightarrow> 't) \<Rightarrow> (string \<Rightarrow> 't) \<Rightarrow> (string \<Rightarrow> 't) \<times> 'o"
  adam_step :: "real \<Rightarrow> 'o option \<Rightarrow> (string \<Rightarrow> 't) \<Rightarrow> (string \<Rightarrow> 't) \<Rightarrow> (string \<Rightarrow> 't) \<times> 'o"
  MNIST :: "string \<Rightarrow> bool \<Rightarrow> error + ('t \<times> nat) list"
  int_of_str :: "string \<Rightarrow> int option"

definition manual_seed :: "('t, 'g, 'o) torch \<Rightarrow> int \<Rightarrow> (unit, ('g, 't) world) prog" where
  "manual_seed T n = (\<lambda>w. (Inr (), w\<lparr>rng := seed_state T n\<rparr>))"

text \<open>A library call that draws from the global generator.\<close>

definition draw :: "('g \<Rightarrow> 'a \<times> 'g) \<Rightarrow> ('a, ('g, 't) world) prog" where
  "draw f = (\<lambda>w. case f (rng w) of (x, g) \<Rightarrow> (Inr x, w\<lparr>rng := g\<rparr>))"

subsection \<open>Layers and the class \<open>Net\<close>\<close>

datatype layer =
    Conv2d (in_channels: int) (out_channels: int) (kernel_size: int)
  | Dropout2d real
  | Linear (in_features: int) (out_features: int)

text \<open>The constructors \<open>torch.nn.Conv2d(i, o, kernel_size=k)\<close>, \<open>torch.nn.Dropout2d(p)\<close>
  and \<open>torch.nn.Linear(i, o)\<close>. A convolution allocates a weight of shape
  \<open>[o, i, k, k]\<close> and a bias of shape \<open>[o]\<close>, a linear layer a weight \<open>[o, i]\<close> and a bias
  \<open>[o]\<close>; allocating a tensor with a negative dimension raises \<open>RuntimeError\<close>, and a
  dropout probability outside \<open>[0, 1]\<close> raises \<open>ValueError\<close>.\<close>

definition new_Conv2d :: "int \<Rightarrow> int \<Rightarrow> int \<Rightarrow> error + layer" where
  "new_Conv2d i o' k = (if i < 0 \<or> o' < 0 \<or> k < 0 then Inl RuntimeError else Inr (Conv2d i o' k))"

definition new_Dropout2d :: "real \<Rightarrow> error + layer" where
  "new_Dropout2d q = (if q < 0 \<or> 1 < q then Inl ValueError else Inr (Dropout2d q))"

definition new_Linear :: "int \<Rightarrow> int \<Rightarrow> error + layer" where
  "new_Linear i o' = (if i < 0 \<or> o' < 0 then Inl RuntimeError else Inr (Linear i o'))"

fun layer_parameters :: "layer \<Rightarrow> (string \<times> int list) list" where
  "layer_parameters (Conv2d i o' k) = [(''weight'', [o', i, k, k]), (''bias'', [o'])]"
| "layer_parameters (Dropout2d q) = []"
| "layer_parameters (Linear i o') = [(''weight'', [o', i]), (''bias'', [o'])]"

text \<open>An instance of \<open>Net\<close>: the five attributes \<open>__init__\<close> assigns, the module's
  \<open>training\<close> flag (set for the module and its layers together by \<open>train()\<close> and
  \<open>eval()\<close>), and the tensors of its parameters.\<close>

record 't net =
  conv1 :: layer
  conv2 :: layer
  conv2_drop :: layer
  fc1 :: layer
  fc2 :: layer
  training :: bool
  param :: "string \<Rightarrow> 't"

text \<open>The sub-modules in the order \<open>__init__\<close> registers them, and the parameters under
  their qualified names, as \<open>named_parameters()\<close> and \<open>state_dict()\<close> list them.\<close>

definition named_children :: "('t, 'z) net_scheme \<Rightarrow> (string \<times> layer) list" where
  "named_children self =
     [(''conv1'', conv1 self), (''conv2'', conv2 self), (''conv2_drop'', conv2_drop self),
      (''fc1'', fc1 self), (''fc2'', fc2 self)]"

definition with_prefix :: "string \<Rightarrow> (string \<times> int list) list \<Rightarrow> (string \<times> int list) list" where
  "with_prefix prefix ps = map (\<lambda>(n, sh). (prefix @ ''.'' @ n, sh)) ps"

definition children_parameters :: "(string \<times> layer) list \<Rightarrow> (string \<times> int list) list" where
  "children_parameters cs = concat (map (\<lambda>(n, l). with_prefix n (layer_parameters l)) cs)"

definition named_parameters :: "('t, 'z) net_scheme \<Rightarrow> (string \<times> int list) list" where
  "named_parameters self = children_parameters (named_children self)"

text \<open>\<open>Net.__init__(self, hidden_channels, kernel_size, drop_out)\<close>. A new module is in
  training mode; its parameters are drawn from the global generator.\<close>

definition Net :: "('t, 'g, 'o) torch \<Rightarrow> int \<Rightarrow> int \<Rightarrow> real \<Rightarrow> ('t net, ('g, 't) world) prog" where
  "Net T hidden_channels ksize drop_out =
     seq (lift (new_Conv2d 1 hidden_channels ksize)) (\<lambda>c1.
     seq (lift (new_Conv2d hidden_channels 20 ksize)) (\<lambda>c2.
     seq (lift (new_Dropout2d drop_out)) (\<lambda>d.
     seq (lift (new_Linear 320 50)) (\<lambda>l1.
     seq (lift (new_Linear 50 10)) (\<lambda>l2.
     seq (draw (init_parameters T
            (children_parameters
               [(''conv1'', c1), (''conv2'', c2), (''conv2_drop'', d), (''fc1'', l1), (''fc2'', l2)])))
       (\<lambda>\<theta>.
     ret \<lparr>conv1 = c1, conv2 = c2, conv2_drop = d, fc1 = l1, fc2 = l2,
          training = True, param = \<theta>\<rparr>))))))"

text \<open>Calling a layer on an input. A dropout layer is the identity outside training
  mode and draws its mask from the global generator in training mode.\<close>

fun call_layer ::
  "('t, 'g, 'o) torch \<Rightarrow> bool \<Rightarrow> (string \<Rightarrow> 't) \<Rightarrow> string \<Rightarrow> layer \<Rightarrow> 't \<Rightarrow> ('t, ('g, 't) world) prog" where
  "call_layer T tr \<theta> name (Conv2d i o' k) x =
     ret (conv2d T x (\<theta> (name @ ''.weight'')) (\<theta> (name @ ''.bias'')))"
| "call_layer T tr \<theta> name (Dropout2d q) x =
     (if tr then draw (dropout2d T x q) else ret x)"
| "call_layer T tr \<theta> name (Linear i o') x =
     ret (linear T x (\<theta> (name @ ''.weight'')) (\<theta> (name @ ''.bias'')))"

text \<open>\<open>torch.nn.functional.dropout(x, training=...)\<close>, with its default \<open>p = 0.5\<close>.\<close>

definition F_dropout :: "('t, 'g, 'o) torch \<Rightarrow> 't \<Rightarrow> bool \<Rightarrow> ('t, ('g, 't) world) prog" where
  "F_dropout T x tr = (if tr then draw (dropout T x (1/2)) else ret x)"

text \<open>\<open>Net.forward(self, x)\<close>, line by line.\<close>

definition forward :: "('t, 'g, 'o) torch \<Rightarrow> 't net \<Rightarrow> 't \<Rightarrow> ('t, ('g, 't) world) prog" where
  "forward T self x =
     seq (call_layer T (training self) (param self) ''conv1'' (conv1 self) x) (\<lambda>c1.
     let x1 = relu T (max_pool2d T c1 2) in
     seq (call_layer T (training self) (param self) ''conv2'' (conv2 self) x1) (\<lambda>c2.
     seq (call_layer T (training self) (param self) ''conv2_drop'' (conv2_drop self) c2) (\<lambda>d.
     let x2 = relu T (max_pool2d T d 2);
         x3 = view T x2 [-1, 320] in
     seq (call_layer T (training self) (param self) ''fc1'' (fc1 self) x3) (\<lambda>f1.
     let x4 = relu T f1 in
     seq (F_dropout T x4 (training self)) (\<lambda>x5.
     seq (call_layer T (training self) (param self) ''fc2'' (fc2 self) x5) (\<lambda>x6.
     ret (log_softmax T x6 1)))))))"

text \<open>\<open>torch.nn.DataParallel(model)\<close> wraps the network as its sub-module \<open>module\<close>.
  On one device a call of the wrapper is a call of the network.\<close>

datatype 't data_parallel = DataParallel (module: "'t net")

definition state_dict :: "'t data_parallel \<Rightarrow> (string \<times> int list \<times> 't) list" where
  "state_dict model =
     map (\<lambda>(n, sh). (''module.'' @ n, sh, param (module model) n))
       (named_parameters (module model))"

definition call :: "('t, 'g, 'o) torch \<Rightarrow> 't data_parallel \<Rightarrow> 't \<Rightarrow> ('t, ('g, 't) world) prog" where
  "call T model x = forward T (module model) x"

definition set_training :: "bool \<Rightarrow> 't data_parallel \<Rightarrow> 't data_parallel" where
  "set_training b model = DataParallel ((module model)\<lparr>training := b\<rparr>)"

subsection \<open>\<open>save_model\<close>\<close>

text \<open>\<open>os.path.join(a, b)\<close> on a POSIX system, for two components.\<close>

definition path_join :: "string \<Rightarrow> string \<Rightarrow> string" where
  "path_join a b =
     (if b \<noteq> [] \<and> hd b = CHR ''/'' then b
      else if a = [] \<or> last a = CHR ''/'' then a @ b
      else a @ ''/'' @ b)"

text \<open>\<open>torch.save(obj, path)\<close>: the file at \<open>path\<close> then holds \<open>obj\<close>; the call raises when
  the path cannot be opened for writing.\<close>

definition torch_save ::
  "(string \<times> int list \<times> 't) list \<Rightarrow> string \<Rightarrow> (unit, ('g, 't) world) prog" where
  "torch_save obj path =
     (\<lambda>w. if writable w path then (Inr (), w\<lparr>files := (files w)(path \<mapsto> obj)\<rparr>)
          else (Inl OSError, w))"

text \<open>\<open>save_model(model, model_dir)\<close>. \<open>model.cpu()\<close> moves the tensors and returns the
  same module.\<close>

definition save_model :: "'t data_parallel \<Rightarrow> string \<Rightarrow> (unit, ('g, 't) world) prog" where
  "save_model model model_dir =
     seq (info Saving_the_model) (\<lambda>_.
     let path = path_join model_dir ''model.pth'' in
     torch_save (state_dict model) path)"

subsection \<open>Data loaders\<close>

text \<open>\<open>torch.utils.data.DataLoader(dataset, batch_size=..., shuffle=...)\<close>. The notebook
  pins PyTorch 1.12 (\<open>framework_version="1.12"\<close>), where the sampler of a shuffling
  loader refuses an empty dataset, and the batch sampler a batch size that is not
  positive, both with \<open>ValueError\<close>.\<close>

record 't data_loader =
  dataset :: "('t \<times> nat) list"
  batch_size :: nat
  shuffle :: bool

definition new_DataLoader :: "('t \<times> nat) list \<Rightarrow> nat \<Rightarrow> bool \<Rightarrow> error + 't data_loader" where
  "new_DataLoader ds bs sh =
     (if (sh \<and> ds = []) \<or> bs = 0 then Inl ValueError
      else Inr \<lparr>dataset = ds, batch_size = bs, shuffle = sh\<rparr>)"

text \<open>The batch sampler cuts the order of indices into batches; the last one may be
  short (\<open>drop_last=False\<close>).\<close>

function batches_of :: "nat \<Rightarrow> 'a list \<Rightarrow> 'a list list" where
  "batches_of n xs = (if n = 0 \<or> xs = [] then [] else take n xs # batches_of n (drop n xs))"
  by pat_completeness auto
termination
  by (relation "measure (\<lambda>(n, xs). length xs)") auto

declare batches_of.simps [simp del]

text \<open>Starting an iteration over a loader: a shuffling loader draws the order of the
  epoch from the global generator.\<close>

definition batch_indices ::
  "('t, 'g, 'o) torch \<Rightarrow> 't data_loader \<Rightarrow> (nat list list, ('g, 't) world) prog" where
  "batch_indices T loader =
     (let n = length (dataset loader) in
      seq (if shuffle loader then draw (randperm T n) else ret [0..<n]) (\<lambda>order.
      ret (batches_of (batch_size loader) order)))"

text \<open>Fetching one batch: the examples at the indices, stacked, and their labels.
  An index outside the dataset raises \<open>IndexError\<close>.\<close>

definition fetch ::
  "('t, 'g, 'o) torch \<Rightarrow> 't data_loader \<Rightarrow> nat list \<Rightarrow> error + ('t \<times> nat list)" where
  "fetch T loader idx =
     (if list_all (\<lambda>i. i < length (dataset loader)) idx
      then Inr (collate T (map (\<lambda>i. fst (dataset loader ! i)) idx),
                map (\<lambda>i. snd (dataset loader ! i)) idx)
      else Inl IndexError)"

text \<open>\<open>len(data_loader)\<close>: the number of batches.\<close>

definition len_loader :: "'t data_loader \<Rightarrow> nat" where
  "len_loader loader =
     (length (dataset loader) + batch_size loader - 1) div batch_size loader"

subsection \<open>Loss and prediction\<close>

text \<open>\<open>torch.nn.functional.nll_loss(output, target, reduction=...)\<close> on the rows of
  \<open>output\<close>: minus the entry of each row at its label, summed or averaged. It raises when
  the batch sizes differ (\<open>ValueError\<close>) or a label is not a column (\<open>IndexError\<close>). The
  mean over an empty batch is not a number.\<close>

datatype reduction = Mean | Sum

definition nll_loss :: "real list list \<Rightarrow> nat list \<Rightarrow> reduction \<Rightarrow> error + real" where
  "nll_loss output target red =
     (if length output \<noteq> length target then Inl ValueError
      else if list_ex (\<lambda>(r, t). length r \<le> t) (zip output target) then Inl IndexError
      else let s = sum_list (map (\<lambda>(r, t). - (r ! t)) (zip output target)) in
        case red of
          Sum \<Rightarrow> Inr s
        | Mean \<Rightarrow> if target = [] then Inl NotANumber else Inr (s / real (length target)))"

text \<open>\<open>output.max(1)[1]\<close>: for each row the index of its maximum, the first one when the
  maximum occurs twice.\<close>

fun argmax_from :: "nat \<Rightarrow> real \<Rightarrow> nat \<Rightarrow> real list \<Rightarrow> nat" where
  "argmax_from best b i [] = best"
| "argmax_from best b i (x # xs) =
     (if b < x then argmax_from i x (Suc i) xs else argmax_from best b (Suc i) xs)"

fun argmax :: "real list \<Rightarrow> nat" where
  "argmax [] = 0"
| "argmax (x # xs) = argmax_from 0 x 1 xs"

text \<open>\<open>pred.eq(target.view_as(pred)).sum().item()\<close>\<close>

definition count_correct :: "real list list \<Rightarrow> nat list \<Rightarrow> nat" where
  "count_correct output target =
     length (filter (\<lambda>(r, t). argmax r = t) (zip output target))"

subsection \<open>\<open>log_performance\<close>\<close>

text \<open>The body of the loop over the loader: the accumulators \<open>loss\<close> and \<open>correct\<close>.\<close>

definition eval_batch ::
  "('t, 'g, 'o) torch \<Rightarrow> 't data_parallel \<Rightarrow> 't data_loader \<Rightarrow> nat list \<Rightarrow> real \<times> nat \<Rightarrow>
   (real \<times> nat, ('g, 't) world) prog" where
  "eval_batch T model data_loader idx acc =
     (case acc of (loss, correct) \<Rightarrow>
      seq (lift (fetch T data_loader idx)) (\<lambda>(data, target).
      seq (call T model data) (\<lambda>output.
      seq (lift (nll_loss (rows T output) target Sum)) (\<lambda>l.
      ret (loss + l, correct + count_correct (rows T output) target)))))"

text \<open>\<open>log_performance(model, data_loader, device, epoch, metric_type)\<close>. \<open>model.eval()\<close>
  changes the caller's model, so the model is returned; the value logged is the last
  event written.\<close>

definition log_performance ::
  "('t, 'g, 'o) torch \<Rightarrow> 't data_parallel \<Rightarrow> 't data_loader \<Rightarrow> int \<Rightarrow> string \<Rightarrow>
   ('t data_parallel, ('g, 't) world) prog" where
  "log_performance T model data_loader epoch metric_type =
     (let model = set_training False model in
      seq (batch_indices T data_loader) (\<lambda>bs.
      seq (for_each (eval_batch T model data_loader) bs (0, 0)) (\<lambda>(loss, correct).
      if length (dataset data_loader) = 0 then raise ZeroDivisionError
      else
        let loss = loss / real (length (dataset data_loader));
            accuracy = 100 * real correct / real (length (dataset data_loader)) in
        seq (info (Performance metric_type loss accuracy)) (\<lambda>_.
        ret model))))"

subsection \<open>\<open>train_model\<close>\<close>

text \<open>The optimizer object: \<open>torch.optim.SGD(..., lr, momentum)\<close> or
  \<open>torch.optim.Adam(..., lr)\<close>, and one \<open>optimizer.step()\<close> of it.\<close>

datatype optim = SGD real real | Adam real

definition optimizer_step ::
  "('t, 'g, 'o) torch \<Rightarrow> optim \<Rightarrow> 'o option \<Rightarrow> (string \<Rightarrow> 't) \<Rightarrow> (string \<Rightarrow> 't) \<Rightarrow>
   (string \<Rightarrow> 't) \<times> 'o" where
  "optimizer_step T opt st \<theta> grads =
     (case opt of
        SGD lr momentum \<Rightarrow> sgd_step T lr momentum st \<theta> grads
      | Adam lr \<Rightarrow> adam_step T lr st \<theta> grads)"

text \<open>The loss of one batch as a function of the parameters, in the world of the forward
  pass (the same dropout masks): what \<open>loss.backward()\<close> differentiates.\<close>

definition loss_at ::
  "('t, 'g, 'o) torch \<Rightarrow> 't data_parallel \<Rightarrow> 't \<Rightarrow> nat list \<Rightarrow> ('g, 't) world \<Rightarrow>
   (string \<Rightarrow> 't) \<Rightarrow> real" where
  "loss_at T model data target w \<theta> =
     (case fst (call T (DataParallel ((module model)\<lparr>param := \<theta>\<rparr>)) data w) of
        Inl e \<Rightarrow> 0
      | Inr output \<Rightarrow>
          (case nll_loss (rows T output) target Mean of Inl e \<Rightarrow> 0 | Inr l \<Rightarrow> l))"

text \<open>The body of the loop over the training batches, \<open>batch_idx\<close> counting from 1.
  \<open>optimizer.zero_grad()\<close> clears the gradients, so \<open>backward\<close> leaves the gradient of
  this batch alone. \<open>len(data)\<close> is the number of examples of the batch. The progress
  line divides by the number of batches, which is positive when there is a batch.\<close>

definition train_batch ::
  "('t, 'g, 'o) torch \<Rightarrow> 't data_loader \<Rightarrow> optim \<Rightarrow> nat \<Rightarrow> int \<Rightarrow> nat \<times> nat list \<Rightarrow>
   't data_parallel \<times> 'o option \<Rightarrow> ('t data_parallel \<times> 'o option, ('g, 't) world) prog" where
  "train_batch T train_loader opt log_interval epoch b acc =
     (case (b, acc) of ((batch_idx, idx), (model, st)) \<Rightarrow>
      seq (lift (fetch T train_loader idx)) (\<lambda>(data, target). (\<lambda>w.
      seq (call T model data) (\<lambda>output.
      seq (lift (nll_loss (rows T output) target Mean)) (\<lambda>loss.
      let grads = autograd T (loss_at T model data target w) (param (module model));
          stepped = optimizer_step T opt st (param (module model)) grads;
          model' = DataParallel ((module model)\<lparr>param := fst stepped\<rparr>) in
      seq (if batch_idx mod log_interval = 0
           then info (Train_Epoch epoch (batch_idx * length target)
                        (length (dataset train_loader))
                        (100 * real batch_idx / real (len_loader train_loader)) loss)
           else ret ()) (\<lambda>_.
      ret (model', Some (snd stepped))))) w)))"

text \<open>The body of the loop over the epochs.\<close>

definition train_epoch ::
  "('t, 'g, 'o) torch \<Rightarrow> 't data_loader \<Rightarrow> 't data_loader \<Rightarrow> optim \<Rightarrow> nat \<Rightarrow> int \<Rightarrow>
   't data_parallel \<times> 'o option \<Rightarrow> ('t data_parallel \<times> 'o option, ('g, 't) world) prog" where
  "train_epoch T train_loader test_loader opt log_interval epoch acc =
     (case acc of (model, st) \<Rightarrow>
      seq (info (Training_Epoch epoch)) (\<lambda>_.
      let model = set_training True model in
      seq (batch_indices T train_loader) (\<lambda>bs.
      seq (for_each (train_batch T train_loader opt log_interval epoch) (enumerate 1 bs) (model, st))
        (\<lambda>(model, st).
      seq (log_performance T model train_loader epoch ''Train'') (\<lambda>model.
      seq (log_performance T model test_loader epoch ''Test'') (\<lambda>model.
      ret (model, st)))))))"

text \<open>The two \<open>logger.info("Processes {}/{} ({:.0f}%) of ... data")\<close> calls: the length of
  the sampler is the length of the dataset, and the percentage divides by it.\<close>

definition log_processes :: "'t data_loader \<Rightarrow> string \<Rightarrow> (unit, ('g, 't) world) prog" where
  "log_processes loader what =
     (let n = length (dataset loader) in
      if n = 0 then raise ZeroDivisionError
      else info (Processes n n (100 * real n / real n) what))"

text \<open>The choice of the optimizer, lines 230 to 236.\<close>

definition make_optimizer :: "string \<Rightarrow> optim" where
  "make_optimizer optimizer =
     (let momentum = 1/2; lr = 1/100 in
      if optimizer = ''sgd'' then SGD lr momentum else Adam lr)"

text \<open>\<open>train_model(train_set, test_set, optimizer, epochs, hidden_channels)\<close>. The choice
  of the device moves tensors and changes no value; it is left out.\<close>

definition train_model ::
  "('t, 'g, 'o) torch \<Rightarrow> ('t \<times> nat) list \<Rightarrow> ('t \<times> nat) list \<Rightarrow> string \<Rightarrow> int \<Rightarrow> int \<Rightarrow>
   ('t data_parallel, ('g, 't) world) prog" where
  "train_model T train_set test_set optimizer epochs hidden_channels =
     seq (manual_seed T 42) (\<lambda>_.
     seq (lift (new_DataLoader train_set 64 True)) (\<lambda>train_loader.
     seq (lift (new_DataLoader test_set 1000 True)) (\<lambda>test_loader.
     seq (log_processes train_loader ''train'') (\<lambda>_.
     seq (log_processes test_loader ''test'') (\<lambda>_.
     seq (Net T hidden_channels 5 (1/2)) (\<lambda>net.
     let model = DataParallel net;
         log_interval = 100;
         opt = make_optimizer optimizer in
     seq (for_each (train_epoch T train_loader test_loader opt log_interval) [1..epochs]
            (model, None)) (\<lambda>(model, st).
     ret model)))))))"

subsection \<open>The \<open>__main__\<close> block\<close>

text \<open>The command line is read by \<open>argparse\<close>. It is given here as the options found on
  it, each the destination name and the text of its value, in order; a repeated option
  takes its last value, and an option the parser does not know ends the process
  (\<open>SystemExit\<close> with status 2), as does a value its \<open>type\<close> refuses.\<close>

record args =
  arg_epochs :: int
  arg_optimizer :: string
  arg_hidden_channels :: int
  arg_model_dir :: string
  arg_num_gpus :: int
  arg_data_dir :: string

definition environ_get :: "(string \<rightharpoonup> string) \<Rightarrow> string \<Rightarrow> error + string" where
  "environ_get environ k = (case environ k of None \<Rightarrow> Inl (KeyError k) | Some v \<Rightarrow> Inr v)"

definition supplied :: "(string \<times> string) list \<Rightarrow> string \<Rightarrow> string option" where
  "supplied cli k = map_of (rev cli) k"

definition as_int :: "('t, 'g, 'o) torch \<Rightarrow> string \<Rightarrow> error + int" where
  "as_int T s = (case int_of_str T s of None \<Rightarrow> Inl (SystemExit 2) | Some n \<Rightarrow> Inr n)"

definition known_options :: "string list" where
  "known_options =
     [''epochs'', ''optimizer'', ''hidden_channels'', ''model_dir'', ''num_gpus'', ''data_dir'']"

text \<open>\<open>parser.parse_args()\<close> for the six arguments the script declares. A default that
  is a string (the three taken from the environment) goes through the argument's
  \<open>type\<close> when the option is absent; the integer defaults are used as they are.\<close>

definition parse_args ::
  "('t, 'g, 'o) torch \<Rightarrow> (string \<times> string) list \<Rightarrow> string \<Rightarrow> string \<Rightarrow> string \<Rightarrow> error + args" where
  "parse_args T cli model_dir_default num_gpus_default data_dir_default =
     (if \<not> list_all (\<lambda>(k, v). k \<in> set known_options) cli then Inl (SystemExit 2)
      else
        case (case supplied cli ''epochs'' of None \<Rightarrow> Inr 10 | Some s \<Rightarrow> as_int T s) of
          Inl e \<Rightarrow> Inl e
        | Inr ep \<Rightarrow>
        case (case supplied cli ''hidden_channels'' of None \<Rightarrow> Inr 10 | Some s \<Rightarrow> as_int T s) of
          Inl e \<Rightarrow> Inl e
        | Inr hc \<Rightarrow>
        case as_int T (case supplied cli ''num_gpus'' of None \<Rightarrow> num_gpus_default | Some s \<Rightarrow> s) of
          Inl e \<Rightarrow> Inl e
        | Inr ng \<Rightarrow>
        Inr \<lparr>arg_epochs = ep,
             arg_optimizer = (case supplied cli ''optimizer'' of None \<Rightarrow> ''sgd'' | Some s \<Rightarrow> s),
             arg_hidden_channels = hc,
             arg_model_dir = (case supplied cli ''model_dir'' of None \<Rightarrow> model_dir_default | Some s \<Rightarrow> s),
             arg_num_gpus = ng,
             arg_data_dir = (case supplied cli ''data_dir'' of None \<Rightarrow> data_dir_default | Some s \<Rightarrow> s)\<rparr>)"

text \<open>The block under \<open>if __name__ == "__main__"\<close>. The three \<open>os.environ[...]\<close> are
  evaluated while the parser is built, before the command line is read.\<close>

definition main ::
  "('t, 'g, 'o) torch \<Rightarrow> (string \<rightharpoonup> string) \<Rightarrow> (string \<times> string) list \<Rightarrow>
   (unit, ('g, 't) world) prog" where
  "main T environ cli =
     seq (lift (environ_get environ ''SM_MODEL_DIR'')) (\<lambda>md.
     seq (lift (environ_get environ ''SM_NUM_GPUS'')) (\<lambda>ng.
     seq (lift (environ_get environ ''SM_CHANNEL_TRAINING'')) (\<lambda>dd.
     seq (lift (parse_args T cli md ng dd)) (\<lambda>a.
     seq (lift (MNIST T (arg_data_dir a) True)) (\<lambda>train_set.
     seq (lift (MNIST T (arg_data_dir a) False)) (\<lambda>test_set.
     seq (train_model T train_set test_set (arg_optimizer a) (arg_epochs a)
            (arg_hidden_channels a)) (\<lambda>model.
     save_model model (arg_model_dir a))))))))"

subsection \<open>Notions the statements use\<close>

text \<open>The architecture of a model is the list of its layers by name; the entries of a
  state dict are the names and shapes of its tensors; the number of parameters is the
  number of scalars in them.\<close>

definition architecture :: "'t data_parallel \<Rightarrow> (string \<times> layer) list" where
  "architecture model = named_children (module model)"

definition num_parameters :: "'t data_parallel \<Rightarrow> int" where
  "num_parameters model = sum_list (map (\<lambda>(n, sh, t). prod_list sh) (state_dict model))"

definition entries :: "(string \<times> int list \<times> 't) list \<Rightarrow> (string \<times> int list) list" where
  "entries sd = map (\<lambda>(n, sh, t). (n, sh)) sd"

text \<open>The network in the words of the specification, section 4.1 step 4: convolution,
  max-pool 2, ReLU, convolution, 2-D dropout with \<open>p = 0.5\<close>, max-pool 2, ReLU, flatten to
  320 features, linear, ReLU, dropout, linear, log-softmax over dimension 1. \<open>tr\<close> says
  whether the module is in training mode, \<open>g\<close> is the state of the generator, returned as
  the two dropouts leave it.\<close>

definition pipeline ::
  "('t, 'g, 'o) torch \<Rightarrow> bool \<Rightarrow> (string \<Rightarrow> 't) \<Rightarrow> 't \<Rightarrow> 'g \<Rightarrow> 't \<times> 'g" where
  "pipeline T tr \<theta> x g =
     (let a1 = conv2d T x (\<theta> ''conv1.weight'') (\<theta> ''conv1.bias'');
          a2 = max_pool2d T a1 2;
          a3 = relu T a2;
          a4 = conv2d T a3 (\<theta> ''conv2.weight'') (\<theta> ''conv2.bias'');
          d1 = (if tr then dropout2d T a4 (1/2) g else (a4, g));
          a5 = max_pool2d T (fst d1) 2;
          a6 = relu T a5;
          a7 = view T a6 [-1, 320];
          a8 = linear T a7 (\<theta> ''fc1.weight'') (\<theta> ''fc1.bias'');
          a9 = relu T a8;
          d2 = (if tr then dropout T a9 (1/2) (snd d1) else (a9, snd d1));
          a10 = linear T (fst d2) (\<theta> ''fc2.weight'') (\<theta> ''fc2.bias'')
      in (log_softmax T a10 1, snd d2))"

text \<open>The order of the output of the epochs, in the words of the specification,
  section 5: for each epoch in turn the line \<open>Training Epoch: n\<close>, then the progress
  lines of that epoch's batches, then the evaluation over the train partition, then the
  evaluation over the test partition, and nothing else. \<open>after_batches\<close> reads the
  batch lines and the two evaluations of epoch \<open>n\<close> and returns what follows them.\<close>

fun after_batches :: "int \<Rightarrow> event list \<Rightarrow> event list option" where
  "after_batches n (Train_Epoch e a b c d # evs) = (if e = n then after_batches n evs else None)"
| "after_batches n (Performance k l a # Performance k' l' a' # evs) =
     (if k = ''Train'' \<and> k' = ''Test'' then Some evs else None)"
| "after_batches n evs = None"

fun sequential :: "int list \<Rightarrow> event list \<Rightarrow> bool" where
  "sequential [] evs = (evs = [])"
| "sequential (n # ns) (Training_Epoch e # evs) =
     (e = n \<and> (case after_batches n evs of None \<Rightarrow> False | Some rest \<Rightarrow> sequential ns rest))"
| "sequential (n # ns) evs = False"

fun batch_log :: "int \<Rightarrow> event \<Rightarrow> bool" where
  "batch_log n (Train_Epoch e a b c d) = (e = n)"
| "batch_log n ev = False"

subsection \<open>A small instance of the library\<close>

text \<open>An instance of the record \<open>torch\<close> on which runs can be evaluated. A tensor is a
  list of numbers, a batch is the concatenation of its examples, a layer acts on each
  number with the sums of its weight and bias, a dropout keeps or drops a whole tensor
  by the parity of the generator state, which is a counter. The row of scores of a
  number \<open>v\<close> is \<open>[-v, v - 1]\<close>. The gradient is the loss at the zero parameters, in every
  coordinate.\<close>

definition affine :: "real list \<Rightarrow> real list \<Rightarrow> real list \<Rightarrow> real list" where
  "affine x wgt b = map (\<lambda>v. v * sum_list wgt + sum_list b) x"

definition mask :: "real list \<Rightarrow> real \<Rightarrow> nat \<Rightarrow> real list \<times> nat" where
  "mask x q g = (if even g then map (\<lambda>v. v / (1 - q)) x else map (\<lambda>v. 0) x, Suc g)"

definition decimal :: "string \<Rightarrow> int option" where
  "decimal s =
     (if s \<noteq> [] \<and> list_all (\<lambda>c. c \<in> set ''0123456789'') s
      then Some (foldl (\<lambda>n c. 10 * n + (of_char c - 48)) 0 s) else None)"

definition tiny :: "(real list, nat, nat) torch" where
  "tiny = \<lparr>seed_state = nat,
     init_parameters = (\<lambda>ps g. ((\<lambda>name. [real (length name) - 12]), Suc g)),
     randperm = (\<lambda>n g. (rev [0..<n], Suc g)),
     collate = concat,
     conv2d = affine,
     max_pool2d = (\<lambda>x k. x),
     relu = map (max 0),
     dropout2d = mask,
     dropout = mask,
     view = (\<lambda>x sh. x),
     linear = affine,
     log_softmax = (\<lambda>x d. x),
     rows = map (\<lambda>v. [- v, v - 1]),
     autograd = (\<lambda>f \<theta> name. [f (\<lambda>_. [0])]),
     sgd_step = (\<lambda>lr m st \<theta> gr.
        ((\<lambda>name. map2 (\<lambda>a b. a - lr * b) (\<theta> name) (gr name)),
         case st of None \<Rightarrow> 1 | Some k \<Rightarrow> Suc k)),
     adam_step = (\<lambda>lr st \<theta> gr.
        ((\<lambda>name. map2 (\<lambda>a b. a - lr * sgn b) (\<theta> name) (gr name)),
         case st of None \<Rightarrow> 1 | Some k \<Rightarrow> Suc k)),
     MNIST = (\<lambda>root train.
        if root = ''/opt/ml/input/data/training''
        then Inr (if train then [([1], 1), ([-2], 0), ([3], 1)] else [([2], 1), ([-1], 1)])
        else Inl RuntimeError),
     int_of_str = decimal\<rparr>"

definition tiny_train :: "(real list \<times> nat) list" where
  "tiny_train = [([1], 1), ([-2], 0), ([3], 1)]"

definition tiny_test :: "(real list \<times> nat) list" where
  "tiny_test = [([2], 1), ([-1], 1)]"

definition tiny_world :: "(nat, real list) world" where
  "tiny_world = \<lparr>rng = 7, out = [], files = Map.empty,
     writable = (\<lambda>path. take 14 path = ''/opt/ml/model/'')\<rparr>"

definition tiny_model :: "real list data_parallel" where
  "tiny_model = DataParallel \<lparr>conv1 = Conv2d 1 5 5, conv2 = Conv2d 5 20 5,
     conv2_drop = Dropout2d (1/2), fc1 = Linear 320 50, fc2 = Linear 50 10, training = True,
     param = (\<lambda>name. [1])\<rparr>"

definition tiny_scores :: "real list \<Rightarrow> real list" where
  "tiny_scores x =
     (let v = max 0 (max 0 (max 0 (sum_list x + 1) + 1) + 1) + 1 in [- v, v - 1])"

section \<open>Lemmas\<close>

subsection \<open>Programs: the laws of sequencing and of loops\<close>

lemma seq_ret [simp]: "seq (ret x) f = f x"
  by (simp add: seq_def ret_def)

lemma seq_raise [simp]: "seq (raise e) f = raise e"
  by (simp add: seq_def raise_def)

lemma lift_Inr [simp]: "lift (Inr x) = ret x"
  by (simp add: lift_def)

lemma lift_Inl [simp]: "lift (Inl e) = raise e"
  by (simp add: lift_def)

lemma ret_apply: "ret x w = (Inr x, w)"
  by (simp add: ret_def)

lemma raise_apply: "raise e w = (Inl e, w)"
  by (simp add: raise_def)

lemma seq_assoc: "seq (seq m f) h = seq m (\<lambda>x. seq (f x) h)"
  by (auto simp: seq_def fun_eq_iff split: prod.splits sum.splits)

lemma seq_Inr:
  "seq m f w = (Inr y, w') \<longleftrightarrow> (\<exists>x w1. m w = (Inr x, w1) \<and> f x w1 = (Inr y, w'))"
  by (auto simp: seq_def split: prod.splits sum.splits)

lemma seq_apply_Inr: "m w = (Inr x, w1) \<Longrightarrow> seq m f w = f x w1"
  by (simp add: seq_def)

lemma seq_apply_Inl: "m w = (Inl e, w1) \<Longrightarrow> seq m f w = (Inl e, w1)"
  by (simp add: seq_def)

lemma lift_Inr_iff: "lift r w = (Inr x, w') \<longleftrightarrow> r = Inr x \<and> w' = w"
  by (cases r) (auto simp: ret_def raise_def)

lemma info_apply: "info e w = (Inr (), w\<lparr>out := out w @ [e]\<rparr>)"
  by (simp add: info_def)

lemma draw_apply: "draw f w = (Inr (fst (f (rng w))), w\<lparr>rng := snd (f (rng w))\<rparr>)"
  by (simp add: draw_def split: prod.splits)

lemma for_each_append:
  "for_each body (xs @ ys) acc = seq (for_each body xs acc) (for_each body ys)"
proof (induction xs arbitrary: acc)
  case Nil
  show ?case by simp
next
  case (Cons x xs)
  have "for_each body (xs @ ys) = (\<lambda>a. seq (for_each body xs a) (for_each body ys))"
    by (rule ext) (rule Cons.IH)
  then show ?case by (simp add: seq_assoc)
qed

lemma for_each_snoc:
  "for_each body (xs @ [x]) acc = seq (for_each body xs acc) (body x)"
proof -
  have "for_each body [x] = body x"
    by (simp add: fun_eq_iff seq_def ret_def split: prod.splits sum.splits)
  then show ?thesis by (simp add: for_each_append)
qed

lemma for_each_invariant:
  assumes run: "for_each body xs a w = (Inr b, w')"
    and init: "I a w"
    and step: "\<And>x a w b w'. x \<in> set xs \<Longrightarrow> I a w \<Longrightarrow> body x a w = (Inr b, w') \<Longrightarrow> I b w'"
  shows "I b w'"
  using run init step
proof (induction xs arbitrary: a w)
  case Nil
  then show ?case by (simp add: ret_def)
next
  case (Cons x xs)
  from Cons.prems(1) obtain c w1 where
    first: "body x a w = (Inr c, w1)" and rest: "for_each body xs c w1 = (Inr b, w')"
    by (auto simp: seq_Inr)
  have "I c w1" using Cons.prems(3)[OF _ Cons.prems(2) first] by simp
  moreover have "\<And>y a w b w'. y \<in> set xs \<Longrightarrow> I a w \<Longrightarrow> body y a w = (Inr b, w') \<Longrightarrow> I b w'"
    using Cons.prems(3) by (meson list.set_intros(2))
  ultimately show ?case using Cons.IH[OF rest] by blast
qed

subsection \<open>The architecture does not change during training\<close>

lemma Net_Inr:
  assumes "Net T h k d w = (Inr net, w')"
  shows "conv1 net = Conv2d 1 h k \<and> conv2 net = Conv2d h 20 k \<and> conv2_drop net = Dropout2d d \<and>
         fc1 net = Linear 320 50 \<and> fc2 net = Linear 50 10 \<and> training net \<and>
         param net = fst (init_parameters T (children_parameters
            [(''conv1'', Conv2d 1 h k), (''conv2'', Conv2d h 20 k), (''conv2_drop'', Dropout2d d),
             (''fc1'', Linear 320 50), (''fc2'', Linear 50 10)]) (rng w)) \<and>
         w' = w\<lparr>rng := snd (init_parameters T (children_parameters
            [(''conv1'', Conv2d 1 h k), (''conv2'', Conv2d h 20 k), (''conv2_drop'', Dropout2d d),
             (''fc1'', Linear 320 50), (''fc2'', Linear 50 10)]) (rng w))\<rparr> \<and>
         0 \<le> h \<and> 0 \<le> k \<and> 0 \<le> d \<and> d \<le> 1"
  using assms
  by (auto simp: Net_def new_Conv2d_def new_Dropout2d_def new_Linear_def raise_apply ret_apply
      draw_apply seq_Inr split: if_splits)

lemma Net_ok:
  assumes "0 \<le> h" "0 \<le> k" "0 \<le> d" "d \<le> 1"
  shows "Net T h k d w =
    (Inr \<lparr>conv1 = Conv2d 1 h k, conv2 = Conv2d h 20 k, conv2_drop = Dropout2d d,
          fc1 = Linear 320 50, fc2 = Linear 50 10, training = True,
          param = fst (init_parameters T (children_parameters
            [(''conv1'', Conv2d 1 h k), (''conv2'', Conv2d h 20 k), (''conv2_drop'', Dropout2d d),
             (''fc1'', Linear 320 50), (''fc2'', Linear 50 10)]) (rng w))\<rparr>,
     w\<lparr>rng := snd (init_parameters T (children_parameters
            [(''conv1'', Conv2d 1 h k), (''conv2'', Conv2d h 20 k), (''conv2_drop'', Dropout2d d),
             (''fc1'', Linear 320 50), (''fc2'', Linear 50 10)]) (rng w))\<rparr>)"
  using assms
  by (simp add: Net_def new_Conv2d_def new_Dropout2d_def new_Linear_def ret_apply draw_apply seq_def)

lemma architecture_set_training [simp]: "architecture (set_training b model) = architecture model"
  by (simp add: architecture_def set_training_def named_children_def)

lemma training_set_training [simp]: "training (module (set_training b model)) = b"
  by (simp add: set_training_def)

lemma param_set_training [simp]: "param (module (set_training b model)) = param (module model)"
  by (simp add: set_training_def)

lemma log_performance_Inr:
  assumes "log_performance T model dl ep mt w = (Inr m, w')"
  shows "m = set_training False model"
  using assms
  by (auto simp: log_performance_def Let_def seq_Inr ret_apply raise_apply info_apply
      split: if_splits prod.splits)

lemma train_batch_Inr:
  assumes "train_batch T dl opt li ep b (model, st) w = (Inr (m, st'), w')"
  shows "architecture m = architecture model \<and> training (module m) = training (module model)"
  using assms
  by (auto simp: train_batch_def Let_def seq_Inr ret_apply lift_Inr_iff architecture_def
      named_children_def split: if_splits prod.splits)

lemma train_batches_Inr:
  assumes "for_each (train_batch T dl opt li ep) bs (model, st) w = (Inr (m, st'), w')"
  shows "architecture m = architecture model \<and> training (module m) = training (module model)"
proof -
  have "architecture (fst (m, st')) = architecture model \<and>
        training (module (fst (m, st'))) = training (module model)"
    by (rule for_each_invariant [OF assms,
          where I = "\<lambda>a w. architecture (fst a) = architecture model \<and>
                           training (module (fst a)) = training (module model)"])
       (auto dest: train_batch_Inr)
  then show ?thesis by simp
qed

lemma train_epoch_Inr:
  assumes "train_epoch T trl tel opt li ep (model, st) w = (Inr (m, st'), w')"
  shows "architecture m = architecture model \<and> \<not> training (module m)"
  using assms
  by (auto simp: train_epoch_def Let_def seq_Inr ret_apply
      dest!: log_performance_Inr train_batches_Inr)

lemma train_epochs_Inr:
  assumes "for_each (train_epoch T trl tel opt li) es (model, st) w = (Inr (m, st'), w')"
  shows "architecture m = architecture model"
proof -
  have "architecture (fst (m, st')) = architecture model"
    by (rule for_each_invariant [OF assms, where I = "\<lambda>a w. architecture (fst a) = architecture model"])
       (auto dest: train_epoch_Inr)
  then show ?thesis by simp
qed

lemma train_model_architecture:
  assumes "train_model T train_set test_set optimizer epochs h w = (Inr m, w')"
  shows "architecture m =
     [(''conv1'', Conv2d 1 h 5), (''conv2'', Conv2d h 20 5), (''conv2_drop'', Dropout2d (1/2)),
      (''fc1'', Linear 320 50), (''fc2'', Linear 50 10)] \<and> 0 \<le> h"
proof -
  from assms obtain net w1 st w2 where
    net: "Net T h 5 (1/2) w1 = (Inr net, w2)" and
    loop: "for_each (train_epoch T \<lparr>dataset = train_set, batch_size = 64, shuffle = True\<rparr>
             \<lparr>dataset = test_set, batch_size = 1000, shuffle = True\<rparr> (make_optimizer optimizer) 100)
             [1..epochs] (DataParallel net, None) w2 = (Inr (m, st), w')"
    by (auto simp: train_model_def Let_def seq_Inr ret_apply lift_Inr_iff new_DataLoader_def
        split: if_splits prod.splits)
  have "architecture m = architecture (DataParallel net)"
    using train_epochs_Inr [OF loop] .
  with Net_Inr [OF net] show ?thesis
    by (simp add: architecture_def named_children_def)
qed

lemma entries_state_dict:
  "entries (state_dict model) =
     map (\<lambda>(n, sh). (''module.'' @ n, sh)) (children_parameters (architecture model))"
  by (simp add: entries_def state_dict_def named_parameters_def architecture_def
      case_prod_unfold comp_def)

subsection \<open>Evaluation over a whole partition\<close>

lemma seq_run: "m w = (Inr x, w1) \<Longrightarrow> f x w1 = r \<Longrightarrow> seq m f w = r"
  by (simp add: seq_def)

lemma call_layer_eval: "call_layer T False \<theta> name l x = ret (case l of
    Conv2d i o' k \<Rightarrow> conv2d T x (\<theta> (name @ ''.weight'')) (\<theta> (name @ ''.bias''))
  | Dropout2d q \<Rightarrow> x
  | Linear i o' \<Rightarrow> linear T x (\<theta> (name @ ''.weight'')) (\<theta> (name @ ''.bias'')))"
  by (cases l) simp_all

lemma call_eval: "\<exists>y. call T (set_training False model) x w = (Inr y, w)"
  by (simp add: call_def forward_def set_training_def call_layer_eval F_dropout_def Let_def ret_apply)

lemma concat_batches_of: "0 < n \<Longrightarrow> concat (batches_of n xs) = xs"
proof (induction n xs rule: batches_of.induct)
  case (1 n xs)
  show ?case
  proof (cases "xs = []")
    case True
    then show ?thesis by (simp add: batches_of.simps)
  next
    case False
    with "1.prems" have "concat (batches_of n (drop n xs)) = drop n xs"
      using "1.IH" by simp
    with False "1.prems" show ?thesis
      by (subst batches_of.simps) simp
  qed
qed

lemma nll_loss_Sum_rows:
  assumes "list_all (\<lambda>(x, y). y < length (f x)) es"
  shows "nll_loss (map (\<lambda>e. f (fst e)) es) (map snd es) Sum =
         Inr (sum_list (map (\<lambda>(x, y). - (f x ! y)) es))"
proof -
  have z: "zip (map (\<lambda>e. f (fst e)) es) (map snd es) = map (\<lambda>e. (f (fst e), snd e)) es"
    by (induction es) simp_all
  have "\<not> list_ex (\<lambda>(r, t). length r \<le> t) (map (\<lambda>e. (f (fst e), snd e)) es)"
    using assms by (induction es) (auto simp: case_prod_unfold)
  then show ?thesis
    by (simp add: nll_loss_def z comp_def case_prod_unfold)
qed

lemma count_correct_rows:
  "count_correct (map (\<lambda>e. f (fst e)) es) (map snd es) =
     length (filter (\<lambda>(x, y). argmax (f x) = y) es)"
proof -
  have z: "zip (map (\<lambda>e. f (fst e)) es) (map snd es) = map (\<lambda>e. (f (fst e), snd e)) es"
    by (induction es) simp_all
  show ?thesis
    by (simp add: count_correct_def z filter_map comp_def case_prod_unfold)
qed

lemma eval_batch_rows:
  assumes batchwise: "\<forall>xs w out'. set xs \<subseteq> fst ` set (dataset dl) \<longrightarrow>
                        call T (set_training False model) (collate T xs) w = (Inr out', w) \<longrightarrow>
                        rows T out' = map f xs"
    and labels: "list_all (\<lambda>(x, y). y < length (f x)) (dataset dl)"
    and idx: "list_all (\<lambda>i. i < length (dataset dl)) idx"
  shows "eval_batch T (set_training False model) dl idx (l, c) w =
     (Inr (l + sum_list (map (\<lambda>(x, y). - (f x ! y)) (map (\<lambda>i. dataset dl ! i) idx)),
           c + length (filter (\<lambda>(x, y). argmax (f x) = y) (map (\<lambda>i. dataset dl ! i) idx))), w)"
proof -
  let ?es = "map (\<lambda>i. dataset dl ! i) idx"
  let ?data = "collate T (map (\<lambda>i. fst (dataset dl ! i)) idx)"
  obtain y where y: "call T (set_training False model) ?data w = (Inr y, w)"
    using call_eval [where T = T and model = model and x = ?data and w = w] by (elim exE)
  have "set (map (\<lambda>i. fst (dataset dl ! i)) idx) \<subseteq> fst ` set (dataset dl)"
    using idx by (auto simp: list_all_iff)
  with batchwise y have "rows T y = map f (map (\<lambda>i. fst (dataset dl ! i)) idx)"
    by blast
  then have r: "rows T y = map (\<lambda>e. f (fst e)) ?es"
    by (simp add: comp_def)
  have t: "map (\<lambda>i. snd (dataset dl ! i)) idx = map snd ?es"
    by (simp add: comp_def)
  have "list_all (\<lambda>(x, y). y < length (f x)) ?es"
    using labels idx by (auto simp: list_all_iff)
  then have n: "nll_loss (rows T y) (map snd ?es) Sum =
      Inr (sum_list (map (\<lambda>(x, y). - (f x ! y)) ?es))"
    unfolding r by (rule nll_loss_Sum_rows)
  have c: "count_correct (rows T y) (map snd ?es) = length (filter (\<lambda>(x, y). argmax (f x) = y) ?es)"
    unfolding r by (rule count_correct_rows)
  have fe: "lift (fetch T dl idx) w = (Inr (?data, map snd ?es), w)"
    using idx by (simp only: fetch_def if_True lift_Inr ret_apply t)
  have nl: "lift (nll_loss (rows T y) (map snd ?es) Sum) w =
      (Inr (sum_list (map (\<lambda>(x, y). - (f x ! y)) ?es)), w)"
    by (simp only: n lift_Inr ret_apply)
  show ?thesis
    unfolding eval_batch_def prod.case
    by (rule seq_run, rule fe, unfold prod.case, rule seq_run, rule y, rule seq_run, rule nl,
        simp only: ret_apply c)
qed

lemma eval_batches_rows:
  assumes batchwise: "\<forall>xs w out'. set xs \<subseteq> fst ` set (dataset dl) \<longrightarrow>
                        call T (set_training False model) (collate T xs) w = (Inr out', w) \<longrightarrow>
                        rows T out' = map f xs"
    and labels: "list_all (\<lambda>(x, y). y < length (f x)) (dataset dl)"
    and idx: "list_all (\<lambda>i. i < length (dataset dl)) (concat bs)"
  shows "for_each (eval_batch T (set_training False model) dl) bs (l, c) w =
     (Inr (l + sum_list (map (\<lambda>(x, y). - (f x ! y)) (map (\<lambda>i. dataset dl ! i) (concat bs))),
           c + length (filter (\<lambda>(x, y). argmax (f x) = y) (map (\<lambda>i. dataset dl ! i) (concat bs)))), w)"
  using idx
proof (induction bs arbitrary: l c)
  case Nil
  then show ?case by (simp add: ret_apply)
next
  case (Cons b bs)
  from Cons.prems have b: "list_all (\<lambda>i. i < length (dataset dl)) b"
    and bs: "list_all (\<lambda>i. i < length (dataset dl)) (concat bs)"
    by simp_all
  show ?case
    unfolding for_each.simps
    by (rule seq_run, rule eval_batch_rows [OF batchwise labels b], unfold Cons.IH [OF bs])
       (simp add: add.assoc)
qed

lemma permuted_examples:
  assumes "mset order = mset [0..<length ds]"
  shows "mset (map (\<lambda>i. ds ! i) order) = mset ds"
proof -
  have "mset (map (\<lambda>i. ds ! i) order) = image_mset (\<lambda>i. ds ! i) (mset order)"
    by simp
  also have "\<dots> = mset (map (\<lambda>i. ds ! i) [0..<length ds])"
    by (simp add: assms)
  also have "\<dots> = mset ds"
    by (simp add: map_nth)
  finally show ?thesis .
qed

lemma sum_list_permuted:
  fixes h :: "'a \<Rightarrow> real"
  assumes "mset xs = mset ys"
  shows "sum_list (map h xs) = sum_list (map h ys)"
proof -
  have "sum_mset (image_mset h (mset xs)) = sum_mset (image_mset h (mset ys))"
    by (simp add: assms)
  then show ?thesis by (simp add: sum_mset_sum_list flip: mset_map)
qed

lemma count_permuted:
  assumes "mset xs = mset ys"
  shows "length (filter P xs) = length (filter P ys)"
proof -
  have "size (filter_mset P (mset xs)) = size (filter_mset P (mset ys))"
    by (simp add: assms)
  then show ?thesis by (simp flip: mset_filter)
qed


subsection \<open>The forward pass, seeding and the set-up of a run\<close>

lemma world_rng_same [simp]: "w\<lparr>rng := rng w\<rparr> = w"
  by simp

lemma call_pipeline:
  assumes "architecture model =
     [(''conv1'', Conv2d 1 h 5), (''conv2'', Conv2d h 20 5), (''conv2_drop'', Dropout2d (1/2)),
      (''fc1'', Linear 320 50), (''fc2'', Linear 50 10)]"
  shows "call T model x w =
     (Inr (fst (pipeline T (training (module model)) (param (module model)) x (rng w))),
      w\<lparr>rng := snd (pipeline T (training (module model)) (param (module model)) x (rng w))\<rparr>)"
proof -
  from assms have l: "conv1 (module model) = Conv2d 1 h 5" "conv2 (module model) = Conv2d h 20 5"
    "conv2_drop (module model) = Dropout2d (1/2)" "fc1 (module model) = Linear 320 50"
    "fc2 (module model) = Linear 50 10"
    by (simp_all add: architecture_def named_children_def)
  show ?thesis
    by (cases "training (module model)")
       (simp_all add: call_def forward_def l F_dropout_def pipeline_def Let_def seq_def ret_apply
          draw_apply split: prod.splits)
qed

lemma pipeline_eval_rng: "snd (pipeline T False \<theta> x g) = g"
  by (simp add: pipeline_def Let_def)

lemma seq_manual_seed: "seq (manual_seed T n) k w = k () (w\<lparr>rng := seed_state T n\<rparr>)"
  by (simp add: seq_def manual_seed_def)

lemma world_update_order: "w\<lparr>rng := g, out := es\<rparr> = w\<lparr>out := es, rng := g\<rparr>"
  by simp

lemma seq_info: "seq (info e) k w = k () (w\<lparr>out := out w @ [e]\<rparr>)"
  by (simp add: seq_def info_def)

lemma train_model_seeded:
  "train_model T tr te optimizer epochs h (w\<lparr>rng := g\<rparr>) = train_model T tr te optimizer epochs h w"
  unfolding train_model_def seq_manual_seed by simp

lemma make_optimizer_sgd: "make_optimizer ''sgd'' = SGD (1/100) (1/2)"
  by (simp add: make_optimizer_def)

lemma make_optimizer_other: "s \<noteq> ''sgd'' \<Longrightarrow> make_optimizer s = Adam (1/100)"
  by (simp add: make_optimizer_def)

lemma train_model_selector:
  "make_optimizer s = make_optimizer s' \<Longrightarrow>
   train_model T tr te s epochs h = train_model T tr te s' epochs h"
  by (simp add: train_model_def)

lemma train_model_no_epochs:
  assumes "epochs \<le> 0"
  shows "train_model T tr te optimizer epochs h =
     seq (manual_seed T 42) (\<lambda>_.
     seq (lift (new_DataLoader tr 64 True)) (\<lambda>train_loader.
     seq (lift (new_DataLoader te 1000 True)) (\<lambda>test_loader.
     seq (log_processes train_loader ''train'') (\<lambda>_.
     seq (log_processes test_loader ''test'') (\<lambda>_.
     seq (Net T h 5 (1/2)) (\<lambda>net.
     ret (DataParallel net)))))))"
proof -
  from assms have "[1..epochs] = []" by simp
  then show ?thesis by (simp add: train_model_def)
qed

lemma train_model_setup:
  assumes "tr \<noteq> []" "te \<noteq> []" "0 \<le> h"
  shows "seq (manual_seed T 42) (\<lambda>_.
     seq (lift (new_DataLoader tr 64 True)) (\<lambda>train_loader.
     seq (lift (new_DataLoader te 1000 True)) (\<lambda>test_loader.
     seq (log_processes train_loader ''train'') (\<lambda>_.
     seq (log_processes test_loader ''test'') (\<lambda>_.
     seq (Net T h 5 (1/2)) (k train_loader test_loader)))))) w =
     k \<lparr>dataset = tr, batch_size = 64, shuffle = True\<rparr>
       \<lparr>dataset = te, batch_size = 1000, shuffle = True\<rparr>
       \<lparr>conv1 = Conv2d 1 h 5, conv2 = Conv2d h 20 5, conv2_drop = Dropout2d (1/2),
          fc1 = Linear 320 50, fc2 = Linear 50 10, training = True,
          param = fst (init_parameters T (children_parameters
            [(''conv1'', Conv2d 1 h 5), (''conv2'', Conv2d h 20 5), (''conv2_drop'', Dropout2d (1/2)),
             (''fc1'', Linear 320 50), (''fc2'', Linear 50 10)]) (seed_state T 42))\<rparr>
       (w\<lparr>rng := snd (init_parameters T (children_parameters
            [(''conv1'', Conv2d 1 h 5), (''conv2'', Conv2d h 20 5), (''conv2_drop'', Dropout2d (1/2)),
             (''fc1'', Linear 320 50), (''fc2'', Linear 50 10)]) (seed_state T 42)),
          out := out w @ [Processes (length tr) (length tr) 100 ''train'',
                          Processes (length te) (length te) 100 ''test'']\<rparr>)"
proof -
  have n: "Net T h 5 (1/2) w' = (Inr \<lparr>conv1 = Conv2d 1 h 5, conv2 = Conv2d h 20 5, conv2_drop = Dropout2d (1/2),
          fc1 = Linear 320 50, fc2 = Linear 50 10, training = True,
          param = fst (init_parameters T (children_parameters
            [(''conv1'', Conv2d 1 h 5), (''conv2'', Conv2d h 20 5), (''conv2_drop'', Dropout2d (1/2)),
             (''fc1'', Linear 320 50), (''fc2'', Linear 50 10)]) (rng w'))\<rparr>,
     w'\<lparr>rng := snd (init_parameters T (children_parameters
            [(''conv1'', Conv2d 1 h 5), (''conv2'', Conv2d h 20 5), (''conv2_drop'', Dropout2d (1/2)),
             (''fc1'', Linear 320 50), (''fc2'', Linear 50 10)]) (rng w'))\<rparr>)" for w'
    using assms(3) by (intro Net_ok) simp_all
  have sn: "seq (Net T h 5 (1/2)) k' w' = k' \<lparr>conv1 = Conv2d 1 h 5, conv2 = Conv2d h 20 5, conv2_drop = Dropout2d (1/2),
          fc1 = Linear 320 50, fc2 = Linear 50 10, training = True,
          param = fst (init_parameters T (children_parameters
            [(''conv1'', Conv2d 1 h 5), (''conv2'', Conv2d h 20 5), (''conv2_drop'', Dropout2d (1/2)),
             (''fc1'', Linear 320 50), (''fc2'', Linear 50 10)]) (rng w'))\<rparr>
     (w'\<lparr>rng := snd (init_parameters T (children_parameters
            [(''conv1'', Conv2d 1 h 5), (''conv2'', Conv2d h 20 5), (''conv2_drop'', Dropout2d (1/2)),
             (''fc1'', Linear 320 50), (''fc2'', Linear 50 10)]) (rng w'))\<rparr>)" for w' k'
    by (simp add: seq_def n)
  show ?thesis
    using assms(1,2)
    by (simp add: seq_manual_seed new_DataLoader_def log_processes_def Let_def seq_info sn
        world_update_order)
qed

subsection \<open>What a run writes, and in which order\<close>

lemma after_batches_epoch:
  "list_all (batch_log n) ts \<Longrightarrow>
   after_batches n (ts @ Performance ''Train'' a b # Performance ''Test'' c d # rest) = Some rest"
proof (induction ts)
  case Nil
  show ?case by simp
next
  case (Cons t ts)
  then show ?case by (cases t) simp_all
qed

lemma sequential_epoch:
  "list_all (batch_log n) ts \<Longrightarrow> sequential ns rest \<Longrightarrow>
   sequential (n # ns)
     (Training_Epoch n # ts @ Performance ''Train'' a b # Performance ''Test'' c d # rest)"
  by (simp add: after_batches_epoch)

lemma call_layer_world:
  fixes w :: "('g, 't) world"
  shows "\<exists>y g. call_layer T tr \<theta> name l x (w\<lparr>rng := g0\<rparr>) = (Inr y, w\<lparr>rng := g\<rparr>)"
proof (cases l)
  case (Conv2d i o' k)
  then show ?thesis by (simp add: ret_apply) blast
next
  case (Dropout2d q)
  then show ?thesis by (cases tr) ((simp add: ret_apply draw_apply, blast)+)
next
  case (Linear i o')
  then show ?thesis by (simp add: ret_apply) blast
qed

lemma F_dropout_world:
  fixes w :: "('g, 't) world"
  shows "\<exists>y g. F_dropout T x tr (w\<lparr>rng := g0\<rparr>) = (Inr y, w\<lparr>rng := g\<rparr>)"
  by (cases tr) ((simp add: F_dropout_def ret_apply draw_apply, blast)+)

lemma forward_world:
  fixes w :: "('g, 't) world"
  shows "\<exists>y g. forward T self x w = (Inr y, w\<lparr>rng := g\<rparr>)"
proof -
  note L = call_layer_world [where T = T and tr = "training self" and \<theta> = "param self" and w = w]
  obtain c1 g1 where 1: "call_layer T (training self) (param self) ''conv1'' (conv1 self) x
      (w\<lparr>rng := rng w\<rparr>) = (Inr c1, w\<lparr>rng := g1\<rparr>)"
    using L [where ?g0.0 = "rng w" and name = "''conv1''" and l = "conv1 self" and x = x]
    by blast
  obtain c2 g2 where 2: "call_layer T (training self) (param self) ''conv2'' (conv2 self)
      (relu T (max_pool2d T c1 2)) (w\<lparr>rng := g1\<rparr>) = (Inr c2, w\<lparr>rng := g2\<rparr>)"
    using L [where ?g0.0 = g1 and name = "''conv2''" and l = "conv2 self"
        and x = "relu T (max_pool2d T c1 2)"]
    by blast
  obtain c3 g3 where 3: "call_layer T (training self) (param self) ''conv2_drop'' (conv2_drop self)
      c2 (w\<lparr>rng := g2\<rparr>) = (Inr c3, w\<lparr>rng := g3\<rparr>)"
    using L [where ?g0.0 = g2 and name = "''conv2_drop''" and l = "conv2_drop self" and x = c2]
    by blast
  obtain c4 g4 where 4: "call_layer T (training self) (param self) ''fc1'' (fc1 self)
      (view T (relu T (max_pool2d T c3 2)) [-1, 320]) (w\<lparr>rng := g3\<rparr>) = (Inr c4, w\<lparr>rng := g4\<rparr>)"
    using L [where ?g0.0 = g3 and name = "''fc1''" and l = "fc1 self"
        and x = "view T (relu T (max_pool2d T c3 2)) [-1, 320]"]
    by blast
  obtain c5 g5 where 5: "F_dropout T (relu T c4) (training self) (w\<lparr>rng := g4\<rparr>) =
      (Inr c5, w\<lparr>rng := g5\<rparr>)"
    using F_dropout_world [where T = T and x = "relu T c4" and tr = "training self" and w = w
        and ?g0.0 = g4]
    by blast
  obtain c6 g6 where 6: "call_layer T (training self) (param self) ''fc2'' (fc2 self) c5
      (w\<lparr>rng := g5\<rparr>) = (Inr c6, w\<lparr>rng := g6\<rparr>)"
    using L [where ?g0.0 = g5 and name = "''fc2''" and l = "fc2 self" and x = c5]
    by blast
  have "forward T self x (w\<lparr>rng := rng w\<rparr>) = (Inr (log_softmax T c6 1), w\<lparr>rng := g6\<rparr>)"
    unfolding forward_def Let_def
    by (rule seq_run, rule 1, rule seq_run, rule 2, rule seq_run, rule 3,
        rule seq_run, rule 4, rule seq_run, rule 5, rule seq_run, rule 6, simp add: ret_apply)
  then show ?thesis by auto
qed

lemma call_out: "call T model x w = (r, w') \<Longrightarrow> out w' = out w"
  using forward_world [of T "module model" x w] by (auto simp: call_def)

lemma batch_indices_out: "batch_indices T dl w = (r, w') \<Longrightarrow> out w' = out w"
  by (auto simp: batch_indices_def Let_def seq_def ret_apply draw_apply split: if_splits)

lemma eval_batch_out: "eval_batch T model dl idx acc w = (r, w') \<Longrightarrow> out w' = out w"
  by (cases acc)
     (auto simp: eval_batch_def seq_def ret_apply raise_apply lift_def
       split: sum.splits prod.splits dest: call_out)

lemma for_each_out:
  assumes "\<And>x a w r w'. body x a w = (r, w') \<Longrightarrow> out w' = out w"
  shows "for_each body xs a w = (r, w') \<Longrightarrow> out w' = out w"
proof (induction xs arbitrary: a w)
  case Nil
  then show ?case by (simp add: ret_apply)
next
  case (Cons x xs)
  then show ?case
    by (auto simp: seq_def split: sum.splits prod.splits dest: assms)
qed

lemma log_performance_out:
  assumes "log_performance T model dl ep mt w = (Inr m, w')"
  shows "\<exists>l a. out w' = out w @ [Performance mt l a]"
proof -
  from assms obtain bs w1 l c w2 where
    1: "batch_indices T dl w = (Inr bs, w1)" and
    2: "for_each (eval_batch T (set_training False model) dl) bs (0, 0) w1 = (Inr (l, c), w2)" and
    3: "out w' = out w2 @ [Performance mt (l / real (length (dataset dl)))
                             (100 * real c / real (length (dataset dl)))]"
    by (auto simp: log_performance_def Let_def seq_Inr info_apply ret_apply raise_apply
        split: if_splits)
  have "out w2 = out w1"
    using for_each_out [OF eval_batch_out 2] .
  with batch_indices_out [OF 1] 3 show ?thesis by simp
qed

lemma train_batch_out:
  assumes "train_batch T dl opt li ep b acc w = (Inr r, w')"
  shows "\<exists>ts. out w' = out w @ ts \<and> list_all (batch_log ep) ts"
proof -
  obtain i idx model st where b: "b = (i, idx)" and acc: "acc = (model, st)"
    by (cases b, cases acc) auto
  from assms obtain data outp w1 l and target :: "nat list" where
    1: "call T model data w = (Inr outp, w1)" and
    2: "(if i mod li = 0
         then info (Train_Epoch ep (i * length target) (length (dataset dl))
                (100 * real i / real (len_loader dl)) l)
         else ret ()) w1 = (Inr (), w')"
    unfolding train_batch_def b acc
    by (clarsimp simp: Let_def seq_Inr lift_Inr_iff ret_apply split: prod.splits)
  have o: "out w1 = out w" using call_out [OF 1] .
  show ?thesis
  proof (cases "i mod li = 0")
    case True
    with 2 o have "out w' = out w @ [Train_Epoch ep (i * length target) (length (dataset dl))
                (100 * real i / real (len_loader dl)) l]"
      by (auto simp: info_apply)
    then show ?thesis by simp
  next
    case False
    with 2 o have "out w' = out w @ [] \<and> list_all (batch_log ep) []" by (auto simp: ret_apply)
    then show ?thesis by blast
  qed
qed

lemma train_batches_out:
  "for_each (train_batch T dl opt li ep) bs acc w = (Inr r, w') \<Longrightarrow>
   \<exists>ts. out w' = out w @ ts \<and> list_all (batch_log ep) ts"
proof (induction bs arbitrary: acc w)
  case Nil
  then have "out w' = out w @ [] \<and> list_all (batch_log ep) []" by (simp add: ret_apply)
  then show ?case by blast
next
  case (Cons b bs)
  from Cons.prems obtain c w1 where
    first: "train_batch T dl opt li ep b acc w = (Inr c, w1)" and
    rest: "for_each (train_batch T dl opt li ep) bs c w1 = (Inr r, w')"
    by (auto simp: seq_Inr)
  from train_batch_out [OF first] obtain ts where ts: "out w1 = out w @ ts" "list_all (batch_log ep) ts"
    by blast
  from Cons.IH [OF rest] obtain ts' where ts': "out w' = out w1 @ ts'" "list_all (batch_log ep) ts'"
    by blast
  from ts ts' have "out w' = out w @ (ts @ ts') \<and> list_all (batch_log ep) (ts @ ts')"
    by simp
  then show ?case by blast
qed

lemma train_epoch_out:
  assumes "train_epoch T trl tel opt li ep acc w = (Inr r, w')"
  shows "\<exists>ts a b c d. out w' = out w @ Training_Epoch ep # ts @
            [Performance ''Train'' a b, Performance ''Test'' c d] \<and> list_all (batch_log ep) ts"
proof -
  obtain model st where acc: "acc = (model, st)" by (cases acc)
  from assms obtain bs w1 m1 st1 w2 m2 w3 m3 where
    1: "batch_indices T trl (w\<lparr>out := out w @ [Training_Epoch ep]\<rparr>) = (Inr bs, w1)" and
    2: "for_each (train_batch T trl opt li ep) (enumerate 1 bs) (set_training True model, st) w1 =
          (Inr (m1, st1), w2)" and
    3: "log_performance T m1 trl ep ''Train'' w2 = (Inr m2, w3)" and
    4: "log_performance T m2 tel ep ''Test'' w3 = (Inr m3, w')"
    unfolding train_epoch_def acc
    by (auto simp: Let_def seq_Inr info_apply ret_apply)
  from batch_indices_out [OF 1] have o1: "out w1 = out w @ [Training_Epoch ep]" by simp
  from train_batches_out [OF 2] obtain ts where ts: "out w2 = out w1 @ ts" "list_all (batch_log ep) ts"
    by blast
  from log_performance_out [OF 3] obtain a b where p1: "out w3 = out w2 @ [Performance ''Train'' a b]"
    by blast
  from log_performance_out [OF 4] obtain c d where p2: "out w' = out w3 @ [Performance ''Test'' c d]"
    by blast
  from o1 ts p1 p2 have "out w' = out w @ Training_Epoch ep # ts @
            [Performance ''Train'' a b, Performance ''Test'' c d]"
    by simp
  with ts(2) show ?thesis by blast
qed

lemma train_epochs_out:
  "for_each (train_epoch T trl tel opt li) es acc w = (Inr r, w') \<Longrightarrow>
   \<exists>evs. out w' = out w @ evs \<and> sequential es evs"
proof (induction es arbitrary: acc w)
  case Nil
  then have "out w' = out w @ [] \<and> sequential [] []" by (simp add: ret_apply)
  then show ?case by blast
next
  case (Cons e es)
  from Cons.prems obtain c w1 where
    first: "train_epoch T trl tel opt li e acc w = (Inr c, w1)" and
    rest: "for_each (train_epoch T trl tel opt li) es c w1 = (Inr r, w')"
    by (auto simp: seq_Inr)
  from train_epoch_out [OF first] obtain ts a b c' d where
    ep: "out w1 = out w @ Training_Epoch e # ts @ [Performance ''Train'' a b, Performance ''Test'' c' d]"
    and ts: "list_all (batch_log e) ts"
    by blast
  from Cons.IH [OF rest] obtain evs where evs: "out w' = out w1 @ evs" "sequential es evs"
    by blast
  have "sequential (e # es)
     (Training_Epoch e # ts @ Performance ''Train'' a b # Performance ''Test'' c' d # evs)"
    using ts evs(2) by (rule sequential_epoch)
  moreover have "out w' = out w @
     (Training_Epoch e # ts @ Performance ''Train'' a b # Performance ''Test'' c' d # evs)"
    using ep evs(1) by simp
  ultimately show ?case by blast
qed

lemma train_model_trace:
  assumes "train_model T tr te optimizer epochs h w = (Inr m, w')"
  shows "\<exists>evs. out w' = out w @ Processes (length tr) (length tr) 100 ''train'' #
            Processes (length te) (length te) 100 ''test'' # evs \<and> sequential [1..epochs] evs"
proof -
  have ne: "tr \<noteq> []" "te \<noteq> []"
    using assms
    by (auto simp: train_model_def seq_Inr lift_Inr_iff new_DataLoader_def split: if_splits)
  have h: "0 \<le> h" using train_model_architecture [OF assms] by simp
  let ?trl = "\<lparr>dataset = tr, batch_size = 64, shuffle = True\<rparr>"
  let ?tel = "\<lparr>dataset = te, batch_size = 1000, shuffle = True\<rparr>"
  from assms obtain net w2 st where
    loop: "for_each (train_epoch T ?trl ?tel (make_optimizer optimizer) 100) [1..epochs]
             (DataParallel net, None) w2 = (Inr (m, st), w')" and
    w2: "out w2 = out w @ [Processes (length tr) (length tr) 100 ''train'',
                          Processes (length te) (length te) 100 ''test'']"
    unfolding train_model_def train_model_setup [OF ne h] Let_def
    by (clarsimp simp: seq_Inr ret_apply)
  from train_epochs_out [OF loop] obtain evs where "out w' = out w2 @ evs" "sequential [1..epochs] evs"
    by blast
  with w2 show ?thesis by simp
qed

lemma train_model_last_epoch:
  assumes "train_model T tr te optimizer epochs h w = (Inr m, w')" and "0 < epochs"
  shows "\<exists>acc st w0. train_epoch T \<lparr>dataset = tr, batch_size = 64, shuffle = True\<rparr>
            \<lparr>dataset = te, batch_size = 1000, shuffle = True\<rparr> (make_optimizer optimizer) 100
            epochs acc w0 = (Inr (m, st), w')"
proof -
  let ?trl = "\<lparr>dataset = tr, batch_size = 64, shuffle = True\<rparr>"
  let ?tel = "\<lparr>dataset = te, batch_size = 1000, shuffle = True\<rparr>"
  from assms(1) obtain net w2 st where
    loop: "for_each (train_epoch T ?trl ?tel (make_optimizer optimizer) 100) [1..epochs]
             (DataParallel net, None) w2 = (Inr (m, st), w')"
    by (auto simp: train_model_def Let_def seq_Inr ret_apply lift_Inr_iff new_DataLoader_def
        split: if_splits prod.splits)
  from assms(2) have "[1..epochs] = [1..epochs - 1] @ [epochs]"
    by (simp add: upto_rec2)
  with loop have "seq (for_each (train_epoch T ?trl ?tel (make_optimizer optimizer) 100) [1..epochs - 1]
             (DataParallel net, None)) (train_epoch T ?trl ?tel (make_optimizer optimizer) 100 epochs) w2
        = (Inr (m, st), w')"
    by (simp add: for_each_snoc)
  then show ?thesis by (auto simp: seq_Inr)
qed

lemma epochs_loop_snoc:
  "0 \<le> n \<Longrightarrow> for_each body [1..n + 1] acc = seq (for_each body [1..n] acc) (body (n + 1))"
  by (simp add: upto_rec2 for_each_snoc)

subsection \<open>The start of the script, and the optimizer that is not chosen\<close>

lemma main_missing_environment:
  assumes "environ ''SM_MODEL_DIR'' = None \<or> environ ''SM_NUM_GPUS'' = None \<or>
           environ ''SM_CHANNEL_TRAINING'' = None"
  shows "main T environ cli w =
     (Inl (KeyError (if environ ''SM_MODEL_DIR'' = None then ''SM_MODEL_DIR''
                     else if environ ''SM_NUM_GPUS'' = None then ''SM_NUM_GPUS''
                     else ''SM_CHANNEL_TRAINING'')), w)"
proof (cases "environ ''SM_MODEL_DIR''")
  case None
  then show ?thesis by (simp add: main_def environ_get_def raise_apply)
next
  case md: (Some a)
  show ?thesis
  proof (cases "environ ''SM_NUM_GPUS''")
    case None
    with md show ?thesis by (simp add: main_def environ_get_def raise_apply)
  next
    case ng: (Some b)
    with md assms have "environ ''SM_CHANNEL_TRAINING'' = None" by simp
    with md ng show ?thesis by (simp add: main_def environ_get_def raise_apply)
  qed
qed

lemma parse_args_defaults:
  assumes "parse_args T cli md ng dd = Inr a"
  shows "(supplied cli ''epochs'' = None \<longrightarrow> arg_epochs a = 10) \<and>
         (supplied cli ''optimizer'' = None \<longrightarrow> arg_optimizer a = ''sgd'') \<and>
         (supplied cli ''hidden_channels'' = None \<longrightarrow> arg_hidden_channels a = 10)"
  using assms
  by (auto simp: parse_args_def split: if_splits sum.splits option.splits)

lemma parse_args_empty:
  "parse_args T [] md ng dd =
     (case int_of_str T ng of
        None \<Rightarrow> Inl (SystemExit 2)
      | Some n \<Rightarrow> Inr \<lparr>arg_epochs = 10, arg_optimizer = ''sgd'', arg_hidden_channels = 10,
                       arg_model_dir = md, arg_num_gpus = n, arg_data_dir = dd\<rparr>)"
  by (simp add: parse_args_def supplied_def as_int_def split: option.splits)

lemma call_layer_adam [simp]:
  "call_layer (T\<lparr>adam_step := a\<rparr>) tr \<theta> name l x = call_layer T tr \<theta> name l x"
  by (cases l) simp_all

lemma call_layer_sgd [simp]:
  "call_layer (T\<lparr>sgd_step := s\<rparr>) tr \<theta> name l x = call_layer T tr \<theta> name l x"
  by (cases l) simp_all

lemma call_adam [simp]: "call (T\<lparr>adam_step := a\<rparr>) model x = call T model x"
  by (simp add: call_def forward_def F_dropout_def Let_def cong: if_cong)

lemma call_sgd [simp]: "call (T\<lparr>sgd_step := s\<rparr>) model x = call T model x"
  by (simp add: call_def forward_def F_dropout_def Let_def cong: if_cong)

lemma log_performance_adam [simp]:
  "log_performance (T\<lparr>adam_step := a\<rparr>) model dl ep mt = log_performance T model dl ep mt"
proof -
  have "eval_batch (T\<lparr>adam_step := a\<rparr>) m dl = eval_batch T m dl" for m
    by (intro ext) (simp add: eval_batch_def fetch_def Let_def cong: if_cong)
  then show ?thesis
    by (simp add: log_performance_def batch_indices_def Let_def cong: if_cong)
qed

lemma log_performance_sgd [simp]:
  "log_performance (T\<lparr>sgd_step := s\<rparr>) model dl ep mt = log_performance T model dl ep mt"
proof -
  have "eval_batch (T\<lparr>sgd_step := s\<rparr>) m dl = eval_batch T m dl" for m
    by (intro ext) (simp add: eval_batch_def fetch_def Let_def cong: if_cong)
  then show ?thesis
    by (simp add: log_performance_def batch_indices_def Let_def cong: if_cong)
qed





subsection \<open>Runs of the small instance\<close>

lemma tiny_run_adam:
  "case train_model tiny tiny_train tiny_test ''adam'' 1 5 tiny_world of
     (Inr m, w1) \<Rightarrow> writable w1 ''/opt/ml/model/model.pth'' | (Inl e, w1) \<Rightarrow> False"
  by code_simp

lemma tiny_run_sgd:
  "case train_model tiny tiny_train tiny_test ''sgd'' 2 5 tiny_world of
     (Inr m, w1) \<Rightarrow> True | (Inl e, w1) \<Rightarrow> False"
  by code_simp

lemma tiny_batchwise:
  assumes "set xs \<subseteq> fst ` set tiny_train"
    and "call tiny (set_training False tiny_model) (collate tiny xs) w = (Inr out', w)"
  shows "rows tiny out' = map tiny_scores xs"
proof -
  have o: "out' = map (\<lambda>v. max 0 (max 0 (max 0 (v + 1) + 1) + 1) + 1) (concat xs)"
    using assms(2)
    by (simp add: call_def forward_def set_training_def tiny_model_def tiny_def F_dropout_def
        ret_apply affine_def comp_def)
  from assms(1) have "map (\<lambda>v. [- (max 0 (max 0 (max 0 (v + 1) + 1) + 1) + 1),
                            (max 0 (max 0 (max 0 (v + 1) + 1) + 1) + 1) - 1]) (concat xs) =
        map tiny_scores xs"
    by (induction xs) (auto simp: tiny_train_def tiny_scores_def)
  then show ?thesis by (simp add: o tiny_def comp_def)
qed

subsection \<open>Names, shapes and number of the parameters\<close>

lemma num_parameters_architecture:
  assumes "architecture model =
     [(''conv1'', Conv2d 1 h 5), (''conv2'', Conv2d h 20 5), (''conv2_drop'', Dropout2d (1/2)),
      (''fc1'', Linear 320 50), (''fc2'', Linear 50 10)]"
  shows "num_parameters model = 526 * h + 16580"
proof -
  from assms have "named_children (module model) =
     [(''conv1'', Conv2d 1 h 5), (''conv2'', Conv2d h 20 5), (''conv2_drop'', Dropout2d (1/2)),
      (''fc1'', Linear 320 50), (''fc2'', Linear 50 10)]"
    by (simp add: architecture_def)
  then show ?thesis
    by (simp add: num_parameters_def state_dict_def named_parameters_def children_parameters_def
        with_prefix_def algebra_simps)
qed

lemma entries_architecture:
  assumes "architecture model =
     [(''conv1'', Conv2d 1 h 5), (''conv2'', Conv2d h 20 5), (''conv2_drop'', Dropout2d (1/2)),
      (''fc1'', Linear 320 50), (''fc2'', Linear 50 10)]"
  shows "entries (state_dict model) =
     [(''module.conv1.weight'', [h, 1, 5, 5]), (''module.conv1.bias'', [h]),
      (''module.conv2.weight'', [20, h, 5, 5]), (''module.conv2.bias'', [20]),
      (''module.fc1.weight'', [50, 320]), (''module.fc1.bias'', [50]),
      (''module.fc2.weight'', [10, 50]), (''module.fc2.bias'', [10])]"
  by (simp add: entries_state_dict assms children_parameters_def with_prefix_def)

lemma tiny_adam_run:
  obtains model w1 where
    "train_model tiny tiny_train tiny_test ''adam'' 1 5 tiny_world = (Inr model, w1)"
    "writable w1 ''/opt/ml/model/model.pth''"
  using tiny_run_adam by (auto split: prod.splits sum.splits)

lemma tiny_sgd_run:
  obtains model w1 where
    "train_model tiny tiny_train tiny_test ''sgd'' 2 5 tiny_world = (Inr model, w1)"
  using tiny_run_sgd by (auto split: prod.splits sum.splits)

lemma path_join_model: "path_join ''/opt/ml/model'' ''model.pth'' = ''/opt/ml/model/model.pth''"
  by (simp add: path_join_def)

section \<open>The claims\<close>

text \<open>
  Claim C1, amended. After \<open>train_model\<close> has returned a model, \<open>save_model\<close> called with
  that model and an output directory in which the file can be created writes exactly
  one file, \<open>model.pth\<close> inside that directory (the world is otherwise unchanged but for
  the log line), and the parameter mapping stored in it has exactly 8 entries: the
  weight and the bias of \<open>conv1\<close>, \<open>conv2\<close>, \<open>fc1\<close> and \<open>fc2\<close>, under the names
  \<open>module.conv1.weight\<close> to \<open>module.fc2.bias\<close>, with the shapes of the architecture for
  the hidden width \<open>h\<close> the model was built with.
\<close>

theorem save_model_after_training:
  assumes "train_model T train_set test_set optimizer epochs h w = (Inr model, w1)"
    and "writable w1 (path_join model_dir ''model.pth'')"
  shows "save_model model model_dir w1 =
           (Inr (), w1\<lparr>out := out w1 @ [Saving_the_model],
                       files := (files w1)(path_join model_dir ''model.pth'' \<mapsto> state_dict model)\<rparr>) \<and>
         path_join model_dir ''model.pth'' =
           (if model_dir = [] \<or> last model_dir = CHR ''/'' then model_dir @ ''model.pth''
            else model_dir @ ''/model.pth'') \<and>
         entries (state_dict model) =
           [(''module.conv1.weight'', [h, 1, 5, 5]), (''module.conv1.bias'', [h]),
            (''module.conv2.weight'', [20, h, 5, 5]), (''module.conv2.bias'', [20]),
            (''module.fc1.weight'', [50, 320]), (''module.fc1.bias'', [50]),
            (''module.fc2.weight'', [10, 50]), (''module.fc2.bias'', [10])]"
proof -
  have "entries (state_dict model) =
           [(''module.conv1.weight'', [h, 1, 5, 5]), (''module.conv1.bias'', [h]),
            (''module.conv2.weight'', [20, h, 5, 5]), (''module.conv2.bias'', [20]),
            (''module.fc1.weight'', [50, 320]), (''module.fc1.bias'', [50]),
            (''module.fc2.weight'', [10, 50]), (''module.fc2.bias'', [10])]"
    using train_model_architecture [OF assms(1)] by (intro entries_architecture) simp
  moreover have "save_model model model_dir w1 =
           (Inr (), w1\<lparr>out := out w1 @ [Saving_the_model],
                       files := (files w1)(path_join model_dir ''model.pth'' \<mapsto> state_dict model)\<rparr>)"
    using assms(2) by (simp add: save_model_def seq_info torch_save_def Let_def)
  moreover have "path_join model_dir ''model.pth'' =
           (if model_dir = [] \<or> last model_dir = CHR ''/'' then model_dir @ ''model.pth''
            else model_dir @ ''/model.pth'')"
    by (simp add: path_join_def)
  ultimately show ?thesis by simp
qed

text \<open>Witness for C1: one epoch on three examples with \<open>hidden_channels = 5\<close> and the
  selector \<open>adam\<close>, saved to \<open>/opt/ml/model\<close>.\<close>

theorem save_model_after_training_witness:
  "\<exists>model w1.
     train_model tiny tiny_train tiny_test ''adam'' 1 5 tiny_world = (Inr model, w1) \<and>
     writable w1 (path_join ''/opt/ml/model'' ''model.pth'') \<and>
     save_model model ''/opt/ml/model'' w1 =
       (Inr (), w1\<lparr>out := out w1 @ [Saving_the_model],
                   files := (files w1)(''/opt/ml/model/model.pth'' \<mapsto> state_dict model)\<rparr>) \<and>
     entries (state_dict model) =
       [(''module.conv1.weight'', [5, 1, 5, 5]), (''module.conv1.bias'', [5]),
        (''module.conv2.weight'', [20, 5, 5, 5]), (''module.conv2.bias'', [20]),
        (''module.fc1.weight'', [50, 320]), (''module.fc1.bias'', [50]),
        (''module.fc2.weight'', [10, 50]), (''module.fc2.bias'', [10])]"
proof -
  obtain model w1 where
    run: "train_model tiny tiny_train tiny_test ''adam'' 1 5 tiny_world = (Inr model, w1)" and
    wr: "writable w1 ''/opt/ml/model/model.pth''"
    by (rule tiny_adam_run)
  from wr have wr': "writable w1 (path_join ''/opt/ml/model'' ''model.pth'')"
    by (simp add: path_join_model)
  show ?thesis
    using save_model_after_training [OF run wr'] run wr'
    by (simp add: path_join_model)
qed

text \<open>Claim C1 as stated, with exactly 6 parameter groups, fails: in the same run the
  saved mapping has 8 entries.\<close>

theorem six_parameter_groups_counterexample:
  "\<exists>model w1 w2 sd.
     train_model tiny tiny_train tiny_test ''adam'' 1 5 tiny_world = (Inr model, w1) \<and>
     save_model model ''/opt/ml/model'' w1 = (Inr (), w2) \<and>
     files w2 ''/opt/ml/model/model.pth'' = Some sd \<and>
     length sd = 8 \<and> length sd \<noteq> 6"
proof -
  obtain model w1 where
    run: "train_model tiny tiny_train tiny_test ''adam'' 1 5 tiny_world = (Inr model, w1)" and
    wr: "writable w1 ''/opt/ml/model/model.pth''"
    by (rule tiny_adam_run)
  have "length (entries (state_dict model)) = 8"
    using train_model_architecture [OF run] by (subst entries_architecture) simp_all
  then have l: "length (state_dict model) = 8"
    by (simp add: entries_def)
  have "save_model model ''/opt/ml/model'' w1 =
      (Inr (), w1\<lparr>out := out w1 @ [Saving_the_model],
                  files := (files w1)(''/opt/ml/model/model.pth'' \<mapsto> state_dict model)\<rparr>)"
    using wr by (simp add: save_model_def seq_info torch_save_def Let_def path_join_model)
  with run l show ?thesis by simp
qed

text \<open>
  Claim C2. \<open>log_performance\<close> reports over the whole partition, with no sampling. Let
  the loader be built by \<open>DataLoader\<close> over a non-empty dataset \<open>ds\<close> of \<open>M\<close> examples, with
  any batch size and with or without shuffling; let a shuffling loader draw a
  permutation of the indices; let the network in evaluation mode give, on a batch of
  examples of \<open>ds\<close>, one row of scores per example, \<open>f x\<close> for the example \<open>x\<close>; and let
  every label be a column of its row. Then the call returns, the average loss it logs is
  the sum over all \<open>M\<close> examples of the negative log-likelihood \<open>- f x ! y\<close> divided by \<open>M\<close>,
  and the accuracy it logs is 100 times the number of examples whose arg-max class is
  their label, divided by \<open>M\<close>. The model is left in evaluation mode, and only the
  generator and the output have changed. On an empty dataset the call raises instead.
\<close>

theorem log_performance_full_partition:
  fixes f :: "'t \<Rightarrow> real list"
  assumes loader: "new_DataLoader ds bs sh = Inr data_loader"
    and nonempty: "ds \<noteq> []"
    and perm: "sh \<Longrightarrow> mset (fst (randperm T (length ds) (rng w))) = mset [0..<length ds]"
    and batchwise: "\<And>xs w out'. set xs \<subseteq> fst ` set ds \<Longrightarrow>
                        call T (set_training False model) (collate T xs) w = (Inr out', w) \<Longrightarrow>
                        rows T out' = map f xs"
    and labels: "list_all (\<lambda>(x, y). y < length (f x)) ds"
  shows "log_performance T model data_loader epoch metric_type w =
     (Inr (set_training False model),
      w\<lparr>rng := (if sh then snd (randperm T (length ds) (rng w)) else rng w),
        out := out w @
          [Performance metric_type
             (sum_list (map (\<lambda>(x, y). - (f x ! y)) ds) / real (length ds))
             (100 * real (length (filter (\<lambda>(x, y). argmax (f x) = y) ds)) / real (length ds))]\<rparr>)"
proof -
  from loader have dl: "data_loader = \<lparr>dataset = ds, batch_size = bs, shuffle = sh\<rparr>" and bs: "0 < bs"
    by (auto simp: new_DataLoader_def split: if_splits)
  define order where "order = (if sh then fst (randperm T (length ds) (rng w)) else [0..<length ds])"
  define w1 where "w1 = w\<lparr>rng := (if sh then snd (randperm T (length ds) (rng w)) else rng w)\<rparr>"
  have order: "mset order = mset [0..<length ds]"
    using perm by (simp add: order_def)
  have bi: "batch_indices T data_loader w = (Inr (batches_of bs order), w1)"
    by (simp add: batch_indices_def dl Let_def order_def w1_def draw_apply ret_apply seq_def)
  have "set order = {0..<length ds}"
    using order by (metis mset_eq_setD set_upt)
  then have idx: "list_all (\<lambda>i. i < length (dataset data_loader)) (concat (batches_of bs order))"
    by (simp add: concat_batches_of [OF bs] dl list_all_iff)
  have labels': "list_all (\<lambda>(x, y). y < length (f x)) (dataset data_loader)"
    using labels by (simp add: dl)
  have ex: "mset (map (\<lambda>i. dataset data_loader ! i) (concat (batches_of bs order))) = mset ds"
    using permuted_examples [OF order] by (simp add: concat_batches_of [OF bs] dl)
  have bw: "\<forall>xs w out'. set xs \<subseteq> fst ` set (dataset data_loader) \<longrightarrow>
                        call T (set_training False model) (collate T xs) w = (Inr out', w) \<longrightarrow>
                        rows T out' = map f xs"
    using batchwise by (simp add: dl)
  have s: "sum_list (map (\<lambda>(x, y). - (f x ! y)) (map (\<lambda>i. dataset data_loader ! i) (concat (batches_of bs order)))) =
           sum_list (map (\<lambda>(x, y). - (f x ! y)) ds)"
    by (rule sum_list_permuted [OF ex])
  have c: "length (filter (\<lambda>(x, y). argmax (f x) = y) (map (\<lambda>i. dataset data_loader ! i) (concat (batches_of bs order)))) =
           length (filter (\<lambda>(x, y). argmax (f x) = y) ds)"
    by (rule count_permuted [OF ex])
  have loop: "for_each (eval_batch T (set_training False model) data_loader) (batches_of bs order) (0, 0) w1 =
      (Inr (sum_list (map (\<lambda>(x, y). - (f x ! y)) ds),
            length (filter (\<lambda>(x, y). argmax (f x) = y) ds)), w1)"
    unfolding eval_batches_rows [OF bw labels' idx, where l = 0 and c = 0 and w = w1] s c
    by simp
  show ?thesis
    unfolding log_performance_def Let_def
    by (rule seq_run, rule bi, rule seq_run, rule loop)
       (simp add: nonempty dl info_apply ret_apply seq_def w1_def)
qed

text \<open>Witness for C2: three examples in batches of two, shuffled; the hypotheses hold
  and the logged values are \<open>-7/3\<close> and \<open>200/3\<close>.\<close>

theorem log_performance_full_partition_witness:
  "log_performance tiny tiny_model \<lparr>dataset = tiny_train, batch_size = 2, shuffle = True\<rparr> 1
     ''Test'' tiny_world =
   (Inr (set_training False tiny_model),
    tiny_world\<lparr>rng := 8, out := [Performance ''Test'' (- (7 / 3)) (200 / 3)]\<rparr>)"
proof -
  have loader: "new_DataLoader tiny_train 2 True =
      Inr \<lparr>dataset = tiny_train, batch_size = 2, shuffle = True\<rparr>"
    by (simp add: new_DataLoader_def tiny_train_def)
  have nonempty: "tiny_train \<noteq> []"
    by (simp add: tiny_train_def)
  have perm: "mset (fst (randperm tiny (length tiny_train) (rng tiny_world))) =
      mset [0..<length tiny_train]"
    by (simp add: tiny_def)
  have labels: "list_all (\<lambda>(x, y). y < length (tiny_scores x)) tiny_train"
    by (simp add: tiny_train_def tiny_scores_def Let_def)
  show ?thesis
    using log_performance_full_partition [OF loader nonempty perm tiny_batchwise labels,
        where epoch = 1 and metric_type = "''Test''"]
    by (simp add: tiny_train_def tiny_scores_def tiny_world_def tiny_def)
qed

text \<open>
  Claim C3. If one of the three environment variables \<open>SM_MODEL_DIR\<close>, \<open>SM_NUM_GPUS\<close>,
  \<open>SM_CHANNEL_TRAINING\<close> is absent, the script stops with \<open>KeyError\<close> for the first one that
  is missing, whatever the command line holds, and the world is unchanged: nothing is
  logged, the generator is untouched, no file is written, no batch is processed. The
  three hyperparameters have the defaults \<open>epochs = 10\<close>, \<open>optimizer = "sgd"\<close>,
  \<open>hidden_channels = 10\<close>: whenever the parser returns, each one that the command line
  does not give has its default, and on an empty command line the parser returns these
  defaults as soon as the GPU count of the environment is an integer.
\<close>

theorem startup_requires_environment:
  "(environ ''SM_MODEL_DIR'' = None \<or> environ ''SM_NUM_GPUS'' = None \<or>
    environ ''SM_CHANNEL_TRAINING'' = None \<longrightarrow>
    main T environ cli w =
      (Inl (KeyError (if environ ''SM_MODEL_DIR'' = None then ''SM_MODEL_DIR''
                      else if environ ''SM_NUM_GPUS'' = None then ''SM_NUM_GPUS''
                      else ''SM_CHANNEL_TRAINING'')), w)) \<and>
   (parse_args T cli md ng dd = Inr a \<longrightarrow>
      (supplied cli ''epochs'' = None \<longrightarrow> arg_epochs a = 10) \<and>
      (supplied cli ''optimizer'' = None \<longrightarrow> arg_optimizer a = ''sgd'') \<and>
      (supplied cli ''hidden_channels'' = None \<longrightarrow> arg_hidden_channels a = 10)) \<and>
   parse_args T [] md ng dd =
     (case int_of_str T ng of
        None \<Rightarrow> Inl (SystemExit 2)
      | Some n \<Rightarrow> Inr \<lparr>arg_epochs = 10, arg_optimizer = ''sgd'', arg_hidden_channels = 10,
                       arg_model_dir = md, arg_num_gpus = n, arg_data_dir = dd\<rparr>)"
  using main_missing_environment [of environ T cli w] parse_args_defaults [of T cli md ng dd a]
    parse_args_empty [of T md ng dd]
  by blast

text \<open>Witness for C3: an environment without \<open>SM_NUM_GPUS\<close>, and a command line that
  gives the optimizer only.\<close>

theorem startup_requires_environment_witness:
  "main tiny [''SM_MODEL_DIR'' \<mapsto> ''/opt/ml/model'',
              ''SM_CHANNEL_TRAINING'' \<mapsto> ''/opt/ml/input/data/training'']
     [(''optimizer'', ''adam'')] tiny_world = (Inl (KeyError ''SM_NUM_GPUS''), tiny_world) \<and>
   parse_args tiny [(''optimizer'', ''adam'')] ''/opt/ml/model'' ''0''
     ''/opt/ml/input/data/training'' =
     Inr \<lparr>arg_epochs = 10, arg_optimizer = ''adam'', arg_hidden_channels = 10,
          arg_model_dir = ''/opt/ml/model'', arg_num_gpus = 0,
          arg_data_dir = ''/opt/ml/input/data/training''\<rparr> \<and>
   parse_args tiny [] ''/opt/ml/model'' ''0'' ''/opt/ml/input/data/training'' =
     Inr \<lparr>arg_epochs = 10, arg_optimizer = ''sgd'', arg_hidden_channels = 10,
          arg_model_dir = ''/opt/ml/model'', arg_num_gpus = 0,
          arg_data_dir = ''/opt/ml/input/data/training''\<rparr>"
proof -
  have p: "parse_args tiny [(''optimizer'', ''adam'')] ''/opt/ml/model'' ''0''
     ''/opt/ml/input/data/training'' =
     Inr \<lparr>arg_epochs = 10, arg_optimizer = ''adam'', arg_hidden_channels = 10,
          arg_model_dir = ''/opt/ml/model'', arg_num_gpus = 0,
          arg_data_dir = ''/opt/ml/input/data/training''\<rparr>"
    by (simp add: parse_args_def known_options_def supplied_def as_int_def tiny_def decimal_def)
  have d: "int_of_str tiny ''0'' = Some 0"
    by (simp add: tiny_def decimal_def)
  show ?thesis
    using startup_requires_environment [where
        environ = "[''SM_MODEL_DIR'' \<mapsto> ''/opt/ml/model'',
          ''SM_CHANNEL_TRAINING'' \<mapsto> ''/opt/ml/input/data/training'']"
        and T = tiny and cli = "[(''optimizer'', ''adam'')]" and w = tiny_world
        and md = "''/opt/ml/model''" and ng = "''0''" and dd = "''/opt/ml/input/data/training''"
        and a = "\<lparr>arg_epochs = 10, arg_optimizer = ''adam'', arg_hidden_channels = 10,
          arg_model_dir = ''/opt/ml/model'', arg_num_gpus = 0,
          arg_data_dir = ''/opt/ml/input/data/training''\<rparr>"]
    by (simp add: p d)
qed

text \<open>
  Claim C4. For every hidden width \<open>h\<close> and every input batch \<open>x\<close>, the model that
  \<open>train_model\<close> returns has the layers \<open>conv1 = Conv2d(1, h, 5)\<close>, \<open>conv2 = Conv2d(h, 20, 5)\<close>,
  \<open>conv2_drop = Dropout2d(0.5)\<close>, \<open>fc1 = Linear(320, 50)\<close>, \<open>fc2 = Linear(50, 10)\<close>, and a call of
  it, in either mode \<open>b\<close>, computes the pipeline of the specification on its current
  parameters: convolution, max-pool 2, ReLU, convolution, 2-D dropout with \<open>p = 0.5\<close>,
  max-pool 2, ReLU, flatten to 320 features, linear, ReLU, dropout, linear,
  log-softmax. The two dropouts act in training mode only: in evaluation mode the
  generator is not touched.
\<close>

theorem forward_is_the_pipeline:
  assumes "train_model T train_set test_set optimizer epochs h w = (Inr model, w1)"
  shows "architecture model =
           [(''conv1'', Conv2d 1 h 5), (''conv2'', Conv2d h 20 5),
            (''conv2_drop'', Dropout2d (1/2)), (''fc1'', Linear 320 50),
            (''fc2'', Linear 50 10)] \<and>
         call T (set_training b model) x w2 =
           (Inr (fst (pipeline T b (param (module model)) x (rng w2))),
            w2\<lparr>rng := snd (pipeline T b (param (module model)) x (rng w2))\<rparr>) \<and>
         snd (pipeline T False (param (module model)) x (rng w2)) = rng w2"
proof -
  have a: "architecture model =
           [(''conv1'', Conv2d 1 h 5), (''conv2'', Conv2d h 20 5),
            (''conv2_drop'', Dropout2d (1/2)), (''fc1'', Linear 320 50),
            (''fc2'', Linear 50 10)]"
    using train_model_architecture [OF assms] by simp
  then have "architecture (set_training b model) =
           [(''conv1'', Conv2d 1 h 5), (''conv2'', Conv2d h 20 5),
            (''conv2_drop'', Dropout2d (1/2)), (''fc1'', Linear 320 50),
            (''fc2'', Linear 50 10)]"
    by simp
  from call_pipeline [OF this, of T x w2] a show ?thesis
    by (simp add: pipeline_eval_rng)
qed

text \<open>Witness for C4: the model of a run of one epoch, called in both modes.\<close>

theorem forward_is_the_pipeline_witness:
  "\<exists>model w1.
     train_model tiny tiny_train tiny_test ''adam'' 1 5 tiny_world = (Inr model, w1) \<and>
     architecture model =
       [(''conv1'', Conv2d 1 5 5), (''conv2'', Conv2d 5 20 5),
        (''conv2_drop'', Dropout2d (1/2)), (''fc1'', Linear 320 50), (''fc2'', Linear 50 10)] \<and>
     call tiny (set_training True model) [1, 2] w1 =
       (Inr (fst (pipeline tiny True (param (module model)) [1, 2] (rng w1))),
        w1\<lparr>rng := snd (pipeline tiny True (param (module model)) [1, 2] (rng w1))\<rparr>) \<and>
     call tiny (set_training False model) [1, 2] w1 =
       (Inr (fst (pipeline tiny False (param (module model)) [1, 2] (rng w1))), w1)"
proof -
  obtain model w1 where
    run: "train_model tiny tiny_train tiny_test ''adam'' 1 5 tiny_world = (Inr model, w1)"
    by (rule tiny_adam_run)
  show ?thesis
    using forward_is_the_pipeline [OF run, of True "[1, 2]" w1]
      forward_is_the_pipeline [OF run, of False "[1, 2]" w1] run
    by simp
qed

text \<open>
  Claim C5. \<open>train_model\<close> seeds the generator with 42 before it draws anything from it:
  a run does not depend on the state of the generator at entry. Two runs on the same
  data with the same hyperparameters, from any two generator states, return the same
  model, leave the same output (the per-epoch losses and accuracies) and the same
  world; each is the run from the state that \<open>manual_seed(42)\<close> sets. The library is a
  function of its arguments and of the generator state here; what a device computes
  out of order is outside this statement.
\<close>

theorem train_model_deterministic:
  "train_model T train_set test_set optimizer epochs h (w\<lparr>rng := g\<rparr>) =
     train_model T train_set test_set optimizer epochs h (w\<lparr>rng := g'\<rparr>) \<and>
   train_model T train_set test_set optimizer epochs h w =
     train_model T train_set test_set optimizer epochs h (w\<lparr>rng := seed_state T 42\<rparr>)"
  by (simp add: train_model_seeded)


text \<open>
  Claim C7. For the same data, epochs and hidden width, the selectors \<open>"sgd"\<close> and
  \<open>"adam"\<close> construct different optimizers, and the models the two runs return have the
  same architecture, the same parameter names and shapes and the same number of
  parameters, \<open>526 h + 16580\<close>.
\<close>

theorem selector_keeps_architecture:
  assumes "train_model T train_set test_set ''sgd'' epochs h w = (Inr m1, w1)"
    and "train_model T train_set test_set ''adam'' epochs h w = (Inr m2, w2)"
  shows "make_optimizer ''sgd'' = SGD (1/100) (1/2) \<and>
         make_optimizer ''adam'' = Adam (1/100) \<and>
         architecture m1 = architecture m2 \<and>
         entries (state_dict m1) = entries (state_dict m2) \<and>
         num_parameters m1 = 526 * h + 16580 \<and>
         num_parameters m2 = 526 * h + 16580"
proof -
  have a1: "architecture m1 =
           [(''conv1'', Conv2d 1 h 5), (''conv2'', Conv2d h 20 5),
            (''conv2_drop'', Dropout2d (1/2)), (''fc1'', Linear 320 50),
            (''fc2'', Linear 50 10)]"
    using train_model_architecture [OF assms(1)] by simp
  have a2: "architecture m2 =
           [(''conv1'', Conv2d 1 h 5), (''conv2'', Conv2d h 20 5),
            (''conv2_drop'', Dropout2d (1/2)), (''fc1'', Linear 320 50),
            (''fc2'', Linear 50 10)]"
    using train_model_architecture [OF assms(2)] by simp
  have "make_optimizer ''adam'' = Adam (1/100)"
    by (rule make_optimizer_other) simp
  then show ?thesis
    by (simp add: make_optimizer_sgd a1 a2 entries_architecture [OF a1] entries_architecture [OF a2]
        num_parameters_architecture [OF a1] num_parameters_architecture [OF a2])
qed

text \<open>Witness for C7: two epochs with each selector, \<open>h = 5\<close>, 19210 parameters.\<close>

theorem selector_keeps_architecture_witness:
  "\<exists>m1 w1 m2 w2.
     train_model tiny tiny_train tiny_test ''sgd'' 2 5 tiny_world = (Inr m1, w1) \<and>
     train_model tiny tiny_train tiny_test ''adam'' 2 5 tiny_world = (Inr m2, w2) \<and>
     architecture m1 = architecture m2 \<and>
     entries (state_dict m1) = entries (state_dict m2) \<and>
     num_parameters m1 = 19210 \<and> num_parameters m2 = 19210"
proof -
  obtain m1 w1 where
    r1: "train_model tiny tiny_train tiny_test ''sgd'' 2 5 tiny_world = (Inr m1, w1)"
    by (rule tiny_sgd_run)
  have "case train_model tiny tiny_train tiny_test ''adam'' 2 5 tiny_world of
     (Inr m, w) \<Rightarrow> True | (Inl e, w) \<Rightarrow> False"
    by code_simp
  then obtain m2 w2 where
    r2: "train_model tiny tiny_train tiny_test ''adam'' 2 5 tiny_world = (Inr m2, w2)"
    by (auto split: prod.splits sum.splits)
  show ?thesis
    using selector_keeps_architecture [OF r1 r2] r1 r2 by simp
qed

text \<open>
  Claim C8. The epochs run one after the other. When \<open>train_model\<close> returns, what it
  wrote after the two set-up lines is, for each epoch from 1 to \<open>epochs\<close> in turn, the
  epoch's heading, the progress lines of its batches, its evaluation over the train
  partition and its evaluation over the test partition, and nothing else: no epoch is
  skipped and none starts before the evaluations of the one before. The model returned
  is the model the body of the last epoch returns, in the world that body leaves: no
  earlier model is kept or chosen. The loop over \<open>n + 1\<close> epochs is the loop over \<open>n\<close>
  epochs followed by the body of epoch \<open>n + 1\<close>, run on the model, the optimizer state
  and the world the first \<open>n\<close> epochs leave.
\<close>

theorem epochs_are_sequential:
  assumes "train_model T train_set test_set optimizer epochs h w = (Inr model, w1)"
  shows "(\<exists>evs. out w1 = out w @
              Processes (length train_set) (length train_set) 100 ''train'' #
              Processes (length test_set) (length test_set) 100 ''test'' # evs \<and>
            sequential [1..epochs] evs) \<and>
         (0 < epochs \<longrightarrow>
            (\<exists>acc st w0.
               train_epoch T \<lparr>dataset = train_set, batch_size = 64, shuffle = True\<rparr>
                 \<lparr>dataset = test_set, batch_size = 1000, shuffle = True\<rparr>
                 (make_optimizer optimizer) 100 epochs acc w0 = (Inr (model, st), w1))) \<and>
         (0 \<le> n \<longrightarrow>
            for_each (train_epoch T trl tel opt li) [1..n + 1] acc' =
              seq (for_each (train_epoch T trl tel opt li) [1..n] acc')
                (train_epoch T trl tel opt li (n + 1)))"
  using train_model_trace [OF assms] train_model_last_epoch [OF assms]
    epochs_loop_snoc [of n "train_epoch T trl tel opt li" acc']
  by blast

text \<open>Witness for C8: a run of two epochs.\<close>

theorem epochs_are_sequential_witness:
  "\<exists>model w1 evs.
     train_model tiny tiny_train tiny_test ''sgd'' 2 5 tiny_world = (Inr model, w1) \<and>
     out w1 = Processes 3 3 100 ''train'' # Processes 2 2 100 ''test'' # evs \<and>
     sequential [1, 2] evs \<and>
     (\<exists>acc st w0.
        train_epoch tiny \<lparr>dataset = tiny_train, batch_size = 64, shuffle = True\<rparr>
          \<lparr>dataset = tiny_test, batch_size = 1000, shuffle = True\<rparr>
          (SGD (1/100) (1/2)) 100 2 acc w0 = (Inr (model, st), w1))"
proof -
  obtain model w1 where
    run: "train_model tiny tiny_train tiny_test ''sgd'' 2 5 tiny_world = (Inr model, w1)"
    by (rule tiny_sgd_run)
  have u: "[1..2] = [1, 2::int]"
    by (simp add: upto_rec1)
  have l: "length tiny_train = 3" "length tiny_test = 2" "out tiny_world = []"
    by (simp_all add: tiny_train_def tiny_test_def tiny_world_def)
  from epochs_are_sequential [OF run, of 0] run show ?thesis
    unfolding u l make_optimizer_sgd by simp
qed

text \<open>
  Claim C9. The selector is not validated: every string other than \<open>"sgd"\<close> selects Adam
  with learning rate 0.01, and the run with it is the run with \<open>"adam"\<close>; in particular
  no exception comes from the name.
\<close>

theorem unknown_selector_is_adam:
  assumes "optimizer \<noteq> ''sgd''"
  shows "make_optimizer optimizer = Adam (1/100) \<and>
         train_model T train_set test_set optimizer epochs h =
           train_model T train_set test_set ''adam'' epochs h"
proof -
  have "make_optimizer optimizer = make_optimizer ''adam''"
    using assms by (simp add: make_optimizer_other)
  then show ?thesis
    using assms by (simp add: make_optimizer_other train_model_selector)
qed

text \<open>Witness for C9: the selector \<open>"SGD"\<close>, in capitals.\<close>

theorem unknown_selector_is_adam_witness:
  "''SGD'' \<noteq> ''sgd'' \<and> make_optimizer ''SGD'' = Adam (1/100) \<and>
   train_model tiny tiny_train tiny_test ''SGD'' 1 5 =
     train_model tiny tiny_train tiny_test ''adam'' 1 5"
  using unknown_selector_is_adam [of "''SGD''" tiny tiny_train tiny_test 1 5] by simp

text \<open>
  Claim C10. With \<open>epochs \<le> 0\<close> the loop body never runs: \<open>train_model\<close> is its set-up
  followed by the return of the new model. On non-empty partitions and a width
  \<open>h \<ge> 0\<close> it returns the network in training mode, with the parameters drawn for it
  from the generator seeded with 42, and has written the two set-up lines only: no
  epoch heading, no batch line, no evaluation.
\<close>

theorem no_epochs_no_training:
  assumes "epochs \<le> 0"
  shows "train_model T train_set test_set optimizer epochs h =
           seq (manual_seed T 42) (\<lambda>_.
           seq (lift (new_DataLoader train_set 64 True)) (\<lambda>train_loader.
           seq (lift (new_DataLoader test_set 1000 True)) (\<lambda>test_loader.
           seq (log_processes train_loader ''train'') (\<lambda>_.
           seq (log_processes test_loader ''test'') (\<lambda>_.
           seq (Net T h 5 (1/2)) (\<lambda>net.
           ret (DataParallel net))))))) \<and>
         (train_set \<noteq> [] \<and> test_set \<noteq> [] \<and> 0 \<le> h \<longrightarrow>
          train_model T train_set test_set optimizer epochs h w =
            (Inr (DataParallel
               \<lparr>conv1 = Conv2d 1 h 5, conv2 = Conv2d h 20 5, conv2_drop = Dropout2d (1/2),
                fc1 = Linear 320 50, fc2 = Linear 50 10, training = True,
                param = fst (init_parameters T
                  [(''conv1.weight'', [h, 1, 5, 5]), (''conv1.bias'', [h]),
                   (''conv2.weight'', [20, h, 5, 5]), (''conv2.bias'', [20]),
                   (''fc1.weight'', [50, 320]), (''fc1.bias'', [50]),
                   (''fc2.weight'', [10, 50]), (''fc2.bias'', [10])] (seed_state T 42))\<rparr>),
             w\<lparr>rng := snd (init_parameters T
                  [(''conv1.weight'', [h, 1, 5, 5]), (''conv1.bias'', [h]),
                   (''conv2.weight'', [20, h, 5, 5]), (''conv2.bias'', [20]),
                   (''fc1.weight'', [50, 320]), (''fc1.bias'', [50]),
                   (''fc2.weight'', [10, 50]), (''fc2.bias'', [10])] (seed_state T 42)),
               out := out w @ [Processes (length train_set) (length train_set) 100 ''train'',
                               Processes (length test_set) (length test_set) 100 ''test'']\<rparr>))"
proof -
  have p: "children_parameters
            [(''conv1'', Conv2d 1 h 5), (''conv2'', Conv2d h 20 5), (''conv2_drop'', Dropout2d (1/2)),
             (''fc1'', Linear 320 50), (''fc2'', Linear 50 10)] =
          [(''conv1.weight'', [h, 1, 5, 5]), (''conv1.bias'', [h]),
           (''conv2.weight'', [20, h, 5, 5]), (''conv2.bias'', [20]),
           (''fc1.weight'', [50, 320]), (''fc1.bias'', [50]),
           (''fc2.weight'', [10, 50]), (''fc2.bias'', [10])]"
    by (simp add: children_parameters_def with_prefix_def)
  note e = train_model_no_epochs [OF assms, of T train_set test_set optimizer h]
  show ?thesis
  proof (intro conjI impI)
    show "train_model T train_set test_set optimizer epochs h =
           seq (manual_seed T 42) (\<lambda>_.
           seq (lift (new_DataLoader train_set 64 True)) (\<lambda>train_loader.
           seq (lift (new_DataLoader test_set 1000 True)) (\<lambda>test_loader.
           seq (log_processes train_loader ''train'') (\<lambda>_.
           seq (log_processes test_loader ''test'') (\<lambda>_.
           seq (Net T h 5 (1/2)) (\<lambda>net.
           ret (DataParallel net)))))))"
      by (rule e)
  next
    assume "train_set \<noteq> [] \<and> test_set \<noteq> [] \<and> 0 \<le> h"
    then have ne: "train_set \<noteq> []" "test_set \<noteq> []" and h: "0 \<le> h"
      by simp_all
    show "train_model T train_set test_set optimizer epochs h w =
            (Inr (DataParallel
               \<lparr>conv1 = Conv2d 1 h 5, conv2 = Conv2d h 20 5, conv2_drop = Dropout2d (1/2),
                fc1 = Linear 320 50, fc2 = Linear 50 10, training = True,
                param = fst (init_parameters T
                  [(''conv1.weight'', [h, 1, 5, 5]), (''conv1.bias'', [h]),
                   (''conv2.weight'', [20, h, 5, 5]), (''conv2.bias'', [20]),
                   (''fc1.weight'', [50, 320]), (''fc1.bias'', [50]),
                   (''fc2.weight'', [10, 50]), (''fc2.bias'', [10])] (seed_state T 42))\<rparr>),
             w\<lparr>rng := snd (init_parameters T
                  [(''conv1.weight'', [h, 1, 5, 5]), (''conv1.bias'', [h]),
                   (''conv2.weight'', [20, h, 5, 5]), (''conv2.bias'', [20]),
                   (''fc1.weight'', [50, 320]), (''fc1.bias'', [50]),
                   (''fc2.weight'', [10, 50]), (''fc2.bias'', [10])] (seed_state T 42)),
               out := out w @ [Processes (length train_set) (length train_set) 100 ''train'',
                               Processes (length test_set) (length test_set) 100 ''test'']\<rparr>)"
      unfolding e train_model_setup [OF ne h] p
      by (simp add: ret_apply)
  qed
qed

text \<open>Witness for C10: \<open>epochs = -3\<close>.\<close>

theorem no_epochs_no_training_witness:
  "(- 3 :: int) \<le> 0 \<and>
   train_model tiny tiny_train tiny_test ''sgd'' (- 3) 5 tiny_world =
     (Inr (DataParallel
        \<lparr>conv1 = Conv2d 1 5 5, conv2 = Conv2d 5 20 5, conv2_drop = Dropout2d (1/2),
         fc1 = Linear 320 50, fc2 = Linear 50 10, training = True,
         param = (\<lambda>name. [real (length name) - 12])\<rparr>),
      tiny_world\<lparr>rng := 43,
        out := [Processes 3 3 100 ''train'', Processes 2 2 100 ''test'']\<rparr>)"
proof -
  have e: "(- 3 :: int) \<le> 0" by simp
  have l: "length tiny_train = 3" "length tiny_test = 2" "out tiny_world = []"
    "tiny_train \<noteq> []" "tiny_test \<noteq> []"
    by (simp_all add: tiny_train_def tiny_test_def tiny_world_def)
  have i: "init_parameters tiny ps (seed_state tiny 42) = ((\<lambda>name. [real (length name) - 12]), 43)"
    for ps
    by (simp add: tiny_def)
  from no_epochs_no_training [OF e, of tiny tiny_train tiny_test "''sgd''" 5 tiny_world,
      THEN conjunct2]
  show ?thesis
    using l(4,5) unfolding l(1-3) i by simp
qed

end
